theory Spec2Isabelle
  imports Main "HOL-Library.Sublist"
begin

section \<open>Strings\<close>

text \<open>
  A Python \<open>str\<close> is modelled by its UTF-8 encoding: a \<open>string\<close> is the list of the
  bytes of the text.  The operations the packager uses (\<open>strip\<close>, \<open>re.sub\<close> with an
  ASCII character class, \<open>replace\<close>, \<open>split\<close>, \<open>str\<close> of an integer) commute with
  that encoding, and \<open>write_text(..., encoding="utf-8")\<close> stores exactly these bytes.
\<close>

subsection \<open>\<open>str.strip()\<close>\<close>

text \<open>
  The code points for which \<open>str.isspace()\<close> holds, each as its UTF-8 bytes:
  U+0009..U+000D, U+001C..U+0020, U+0085, U+00A0, U+1680, U+2000..U+200A, U+2028,
  U+2029, U+202F, U+205F, U+3000.
\<close>

definition whitespace :: "string list" where
  "whitespace =
    [[CHR 0x09], [CHR 0x0A], [CHR 0x0B], [CHR 0x0C], [CHR 0x0D],
     [CHR 0x1C], [CHR 0x1D], [CHR 0x1E], [CHR 0x1F], [CHR 0x20],
     [CHR 0xC2, CHR 0x85], [CHR 0xC2, CHR 0xA0],
     [CHR 0xE1, CHR 0x9A, CHR 0x80],
     [CHR 0xE2, CHR 0x80, CHR 0x80], [CHR 0xE2, CHR 0x80, CHR 0x81],
     [CHR 0xE2, CHR 0x80, CHR 0x82], [CHR 0xE2, CHR 0x80, CHR 0x83],
     [CHR 0xE2, CHR 0x80, CHR 0x84], [CHR 0xE2, CHR 0x80, CHR 0x85],
     [CHR 0xE2, CHR 0x80, CHR 0x86], [CHR 0xE2, CHR 0x80, CHR 0x87],
     [CHR 0xE2, CHR 0x80, CHR 0x88], [CHR 0xE2, CHR 0x80, CHR 0x89],
     [CHR 0xE2, CHR 0x80, CHR 0x8A],
     [CHR 0xE2, CHR 0x80, CHR 0xA8], [CHR 0xE2, CHR 0x80, CHR 0xA9],
     [CHR 0xE2, CHR 0x80, CHR 0xAF],
     [CHR 0xE2, CHR 0x81, CHR 0x9F],
     [CHR 0xE3, CHR 0x80, CHR 0x80]]"

text \<open>Number of bytes of the whitespace code point the string starts (ends) with, or 0.\<close>

definition space_prefix :: "string \<Rightarrow> nat" where
  "space_prefix s = (case find (\<lambda>w. prefix w s) whitespace of Some w \<Rightarrow> length w | None \<Rightarrow> 0)"

definition space_suffix :: "string \<Rightarrow> nat" where
  "space_suffix s = (case find (\<lambda>w. suffix w s) whitespace of Some w \<Rightarrow> length w | None \<Rightarrow> 0)"

function lstrip :: "string \<Rightarrow> string" where
  "lstrip s = (if space_prefix s = 0 then s else lstrip (drop (space_prefix s) s))"
  by pat_completeness auto
termination
proof (relation "measure length")
  show "wf (measure length)" by simp
next
  fix s :: string
  assume a: "space_prefix s \<noteq> 0"
  then obtain w where f: "find (\<lambda>w. prefix w s) whitespace = Some w"
    by (auto simp: space_prefix_def split: option.splits)
  then have "prefix w s"
    by (auto simp: find_Some_iff)
  then have "length w \<le> length s"
    by (rule prefix_length_le)
  moreover from f have l: "space_prefix s = length w"
    by (simp add: space_prefix_def)
  moreover from a l have "0 < length w"
    by simp
  ultimately have "length s - length w < length s"
    by arith
  then show "(drop (space_prefix s) s, s) \<in> measure length"
    by (simp add: l)
qed

function rstrip :: "string \<Rightarrow> string" where
  "rstrip s = (if space_suffix s = 0 then s else rstrip (take (length s - space_suffix s) s))"
  by pat_completeness auto
termination
proof (relation "measure length")
  show "wf (measure length)" by simp
next
  fix s :: string
  assume a: "space_suffix s \<noteq> 0"
  then obtain w where f: "find (\<lambda>w. suffix w s) whitespace = Some w"
    by (auto simp: space_suffix_def split: option.splits)
  then have "suffix w s"
    by (auto simp: find_Some_iff)
  then have "length w \<le> length s"
    by (rule suffix_length_le)
  moreover from f have l: "space_suffix s = length w"
    by (simp add: space_suffix_def)
  moreover from a l have "0 < length w"
    by simp
  ultimately have "length s - length w < length s"
    by arith
  then show "(take (length s - space_suffix s) s, s) \<in> measure length"
    by (simp add: l)
qed

declare lstrip.simps [simp del] rstrip.simps [simp del]

definition strip :: "string \<Rightarrow> string" where
  "strip s = rstrip (lstrip s)"

subsection \<open>\<open>re.sub(r"[^A-Za-z0-9_\-]", "", s)\<close>\<close>

definition name_char :: "char \<Rightarrow> bool" where
  "name_char c =
     (let n = (of_char c :: nat)
      in (65 \<le> n \<and> n \<le> 90) \<or> (97 \<le> n \<and> n \<le> 122) \<or> (48 \<le> n \<and> n \<le> 57)
         \<or> c = CHR ''_'' \<or> c = CHR ''-'')"

definition re_sub_delete :: "string \<Rightarrow> string" where
  "re_sub_delete s = filter name_char s"

subsection \<open>\<open>safe_name\<close>\<close>

text \<open>
  \<^verbatim>\<open>cleaned = re.sub(r"[^A-Za-z0-9_\-]", "", name.strip())\<close>,
  \<^verbatim>\<open>return cleaned or fallback\<close>: an empty \<open>cleaned\<close> is falsy.
\<close>

definition safe_name :: "string \<Rightarrow> string \<Rightarrow> string" where
  "safe_name name fallback =
     (let cleaned = re_sub_delete (strip name)
      in if cleaned \<noteq> [] then cleaned else fallback)"

subsection \<open>\<open>str.replace\<close>, \<open>str.split\<close>, \<open>str(int)\<close>\<close>

text \<open>
  \<open>s.replace(old, new)\<close> replaces the non-overlapping occurrences of \<open>old\<close>, leftmost
  first; with an empty \<open>old\<close> it puts \<open>new\<close> before every character and at the end.
\<close>

function replace :: "string \<Rightarrow> string \<Rightarrow> string \<Rightarrow> string" where
  "replace s old new =
     (if old = [] then new @ concat (map (\<lambda>c. c # new) s)
      else if s = [] then []
      else if prefix old s then new @ replace (drop (length old) s) old new
      else hd s # replace (tl s) old new)"
  by pat_completeness auto
termination
  by (relation "measure (\<lambda>(s, old, new). length s)") (auto simp: neq_Nil_conv)

declare replace.simps [simp del]

text \<open>\<open>s.split(sep)\<close> for a one-character separator: never the empty list.\<close>

fun split_on :: "char \<Rightarrow> string \<Rightarrow> string list" where
  "split_on sep [] = [[]]"
| "split_on sep (c # cs) =
     (if c = sep then [] # split_on sep cs
      else (case split_on sep cs of [] \<Rightarrow> [[c]] | x # xs \<Rightarrow> (c # x) # xs))"

text \<open>
  \<open>str(n)\<close> for a Python integer (unbounded, so \<open>int\<close>): decimal digits, most
  significant first, with a minus sign for a negative number.  (CPython's limit on the
  number of digits of such a conversion, 4300 by default, is outside the model.)
\<close>

definition digit_char :: "nat \<Rightarrow> char" where
  "digit_char d = ''0123456789'' ! d"

function digits :: "nat \<Rightarrow> string" where
  "digits n = (if n < 10 then [digit_char n] else digits (n div 10) @ [digit_char (n mod 10)])"
  by pat_completeness auto
termination
  by (relation "measure id") auto

declare digits.simps [simp del]

definition str_int :: "int \<Rightarrow> string" where
  "str_int i = (if i < 0 then CHR ''-'' # digits (nat (- i)) else digits (nat i))"

text \<open>The number a string of decimal digits denotes.\<close>

definition digit_val :: "char \<Rightarrow> nat" where
  "digit_val c = of_char c - 48"

definition decimal :: "string \<Rightarrow> nat" where
  "decimal s = foldl (\<lambda>a c. 10 * a + digit_val c) 0 s"

section \<open>The templates\<close>

text \<open>A triple-quoted template, line by line; every line ends with a line feed.\<close>

definition text_lines :: "string list \<Rightarrow> string" where
  "text_lines ls = concat (map (\<lambda>l. l @ [CHR 0x0A]) ls)"

definition ANDROID_MANIFEST :: string where
  \<open>ANDROID_MANIFEST = text_lines
    [''<?xml version="1.0" encoding="utf-8"?>'',
     ''<manifest xmlns:android="http://schemas.android.com/apk/res/android">'',
     '''',
     ''    <application'',
     ''        android:allowBackup="true"'',
     ''        android:icon="@android:drawable/sym_def_app_icon"'',
     ''        android:label="@string/app_name"'',
     ''        android:roundIcon="@android:drawable/sym_def_app_icon"'',
     ''        android:supportsRtl="true"'',
     ''        android:theme="@style/Theme.AppCompat.Light.NoActionBar">'',
     ''        <activity'',
     ''            android:name=".MainActivity"'',
     ''            android:exported="true">'',
     ''            <intent-filter>'',
     ''                <action android:name="android.intent.action.MAIN" />'',
     ''                <category android:name="android.intent.category.LAUNCHER" />'',
     ''            </intent-filter>'',
     ''        </activity>'',
     ''    </application>'',
     '''',
     ''</manifest>'']\<close>

definition STRINGS_XML :: string where
  \<open>STRINGS_XML = text_lines
    [''<?xml version="1.0" encoding="utf-8"?>'',
     ''<resources>'',
     ''    <string name="app_name">{app_name}</string>'',
     ''</resources>'']\<close>

definition SETTINGS_GRADLE :: string where
  \<open>SETTINGS_GRADLE = text_lines
    [''pluginManagement {'',
     ''    repositories {'',
     ''        google()'',
     ''        mavenCentral()'',
     ''        gradlePluginPortal()'',
     ''    }'',
     ''}'',
     '''',
     ''dependencyResolutionManagement {'',
     ''    repositoriesMode.set(RepositoriesMode.FAIL_ON_PROJECT_REPOS)'',
     ''    repositories {'',
     ''        google()'',
     ''        mavenCentral()'',
     ''    }'',
     ''}'',
     '''',
     ''rootProject.name = "__PROJECT_NAME__"'',
     ''include(":app")'']\<close>

definition ROOT_BUILD_GRADLE :: string where
  \<open>ROOT_BUILD_GRADLE = text_lines
    [''plugins {'',
     ''    id("com.android.application") version "8.5.2" apply false'',
     ''    id("org.jetbrains.kotlin.android") version "1.9.24" apply false'',
     ''}'']\<close>

definition APP_BUILD_GRADLE :: string where
  \<open>APP_BUILD_GRADLE = text_lines
    [''plugins {'',
     ''    id("com.android.application")'',
     ''    id("org.jetbrains.kotlin.android")'',
     ''}'',
     '''',
     ''android {'',
     ''    namespace = "__APPLICATION_ID__"'',
     ''    compileSdk = __COMPILE_SDK__'',
     '''',
     ''    defaultConfig {'',
     ''        applicationId = "__APPLICATION_ID__"'',
     ''        minSdk = __MIN_SDK__'',
     ''        targetSdk = __TARGET_SDK__'',
     ''        versionCode = 1'',
     ''        versionName = "1.0"'',
     '''',
     ''        testInstrumentationRunner = "androidx.test.runner.AndroidJUnitRunner"'',
     ''    }'',
     '''',
     ''    buildTypes {'',
     ''        release {'',
     ''            isMinifyEnabled = false'',
     ''            proguardFiles('',
     ''                getDefaultProguardFile("proguard-android-optimize.txt"),'',
     ''                "proguard-rules.pro"'',
     ''            )'',
     ''        }'',
     ''    }'',
     '''',
     ''    compileOptions {'',
     ''        sourceCompatibility = JavaVersion.VERSION_17'',
     ''        targetCompatibility = JavaVersion.VERSION_17'',
     ''    }'',
     '''',
     ''    kotlinOptions {'',
     ''        jvmTarget = "17"'',
     ''    }'',
     ''}'',
     '''',
     ''dependencies {'',
     ''    implementation("androidx.core:core-ktx:1.13.1")'',
     ''    implementation("androidx.appcompat:appcompat:1.7.0")'',
     ''    implementation("com.google.android.material:material:1.12.0")'',
     ''}'']\<close>

definition GRADLE_PROPERTIES :: string where
  \<open>GRADLE_PROPERTIES = text_lines
    [''org.gradle.jvmargs=-Xmx2048m -Dfile.encoding=UTF-8'',
     ''android.useAndroidX=true'',
     ''kotlin.code.style=official'',
     ''android.nonTransitiveRClass=true'']\<close>

definition MAIN_ACTIVITY_TEMPLATE :: string where
  \<open>MAIN_ACTIVITY_TEMPLATE = text_lines
    [''package __APPLICATION_ID__'',
     '''',
     ''import android.os.Bundle'',
     ''import android.widget.TextView'',
     ''import androidx.appcompat.app.AppCompatActivity'',
     '''',
     ''class MainActivity : AppCompatActivity() {'',
     ''    override fun onCreate(savedInstanceState: Bundle?) {'',
     ''        super.onCreate(savedInstanceState)'',
     ''        val textView = TextView(this).apply {'',
     ''            text = "Hello from generated Android app"'',
     ''            textSize = 24f'',
     ''        }'',
     ''        setContentView(textView)'',
     ''    }'',
     ''}'']\<close>

section \<open>Paths\<close>

text \<open>
  A \<open>pathlib\<close> path of the POSIX flavour: whether it is anchored at the root, and its
  components.  Parsing a string drops the empty components and the components \<open>.\<close>;
  joining with an anchored path gives that path.  (The root \<open>//\<close> is not told from \<open>/\<close>.)
\<close>

datatype path = Path bool "string list"

definition parse_path :: "string \<Rightarrow> path" where
  "parse_path s =
     Path (prefix ''/'' s) (filter (\<lambda>x. x \<noteq> [] \<and> x \<noteq> ''.'') (split_on CHR ''/'' s))"

fun joinpath :: "path \<Rightarrow> path \<Rightarrow> path" where
  "joinpath (Path a xs) (Path b ys) = (if b then Path True ys else Path a (xs @ ys))"

text \<open>\<open>p / s\<close> for a string \<open>s\<close>, and \<open>Path(*segments)\<close>.\<close>

definition slash :: "path \<Rightarrow> string \<Rightarrow> path" where
  "slash p s = joinpath p (parse_path s)"

definition Path_of :: "string list \<Rightarrow> path" where
  "Path_of segments = foldl slash (Path False []) segments"

fun parent :: "path \<Rightarrow> path" where
  "parent (Path a xs) = Path a (butlast xs)"

fun join_with :: "string \<Rightarrow> string list \<Rightarrow> string" where
  "join_with sep [] = []"
| "join_with sep [x] = x"
| "join_with sep (x # y # ys) = x @ sep @ join_with sep (y # ys)"

fun str_path :: "path \<Rightarrow> string" where
  "str_path (Path a xs) =
     (if xs = [] then (if a then ''/'' else ''.'')
      else (if a then ''/'' else []) @ join_with ''/'' xs)"

text \<open>\<open>os.path.basename\<close>: what follows the last slash.\<close>

definition basename :: "string \<Rightarrow> string" where
  "basename s = rev (takeWhile (\<lambda>c. c \<noteq> CHR ''/'') (rev s))"

section \<open>The file system\<close>

text \<open>
  A tree of directories and regular files, keyed by the resolved location (the components
  from the root), and the working directory of the process.  There are no symbolic links,
  no permissions and no limits on space or on the length of a name.
\<close>

type_synonym loc = "string list"

datatype node = Dir | File string

record fsys =
  nodes :: "loc \<Rightarrow> node option"
  cwd :: loc

datatype exn =
    FileExistsError
  | FileNotFoundError
  | NotADirectoryError
  | IsADirectoryError
  | SameFileError
  | CalledProcessError int

text \<open>
  Path resolution as the kernel does it: every component is looked up in a directory that
  exists, \<open>..\<close> steps to the parent; the last component itself need not exist.
\<close>

fun walk :: "(loc \<Rightarrow> node option) \<Rightarrow> loc \<Rightarrow> string list \<Rightarrow> exn + loc" where
  "walk t cur [] = Inr cur"
| "walk t cur (c # cs) =
     (case t cur of
        None \<Rightarrow> Inl FileNotFoundError
      | Some (File b) \<Rightarrow> Inl NotADirectoryError
      | Some Dir \<Rightarrow> walk t (if c = ''..'' then butlast cur else cur @ [c]) cs)"

fun resolve :: "fsys \<Rightarrow> path \<Rightarrow> exn + loc" where
  "resolve fs (Path a xs) = walk (nodes fs) (if a then [] else cwd fs) xs"

text \<open>\<open>Path.exists()\<close> and \<open>Path.is_dir()\<close>: a path that does not resolve is not there.\<close>

definition path_exists :: "fsys \<Rightarrow> path \<Rightarrow> bool" where
  "path_exists fs p = (case resolve fs p of Inl e \<Rightarrow> False | Inr q \<Rightarrow> nodes fs q \<noteq> None)"

definition is_dir :: "fsys \<Rightarrow> path \<Rightarrow> bool" where
  "is_dir fs p = (case resolve fs p of Inl e \<Rightarrow> False | Inr q \<Rightarrow> nodes fs q = Some Dir)"

definition os_mkdir :: "fsys \<Rightarrow> path \<Rightarrow> exn + fsys" where
  "os_mkdir fs p =
     (case resolve fs p of
        Inl e \<Rightarrow> Inl e
      | Inr q \<Rightarrow>
          if nodes fs q \<noteq> None then Inl FileExistsError
          else Inr (fs\<lparr>nodes := (nodes fs)(q \<mapsto> Dir)\<rparr>))"

text \<open>Opening a file for writing and writing the data; opening it for reading.\<close>

definition write_file :: "fsys \<Rightarrow> path \<Rightarrow> string \<Rightarrow> exn + fsys" where
  "write_file fs p data =
     (case resolve fs p of
        Inl e \<Rightarrow> Inl e
      | Inr q \<Rightarrow>
          if nodes fs q = Some Dir then Inl IsADirectoryError
          else Inr (fs\<lparr>nodes := (nodes fs)(q \<mapsto> File data)\<rparr>))"

definition read_file :: "fsys \<Rightarrow> path \<Rightarrow> exn + string" where
  "read_file fs p =
     (case resolve fs p of
        Inl e \<Rightarrow> Inl e
      | Inr q \<Rightarrow>
          (case nodes fs q of
             None \<Rightarrow> Inl FileNotFoundError
           | Some Dir \<Rightarrow> Inl IsADirectoryError
           | Some (File data) \<Rightarrow> Inr data))"

text \<open>
  An operation either raises or returns, and in both cases leaves a file system behind;
  \<open>and_then\<close> runs the next statement unless the previous one raised.
\<close>

definition and_then ::
  "(exn + unit) \<times> fsys \<Rightarrow> (fsys \<Rightarrow> (exn + 'a) \<times> fsys) \<Rightarrow> (exn + 'a) \<times> fsys" where
  "and_then r k = (case r of (Inl e, fs) \<Rightarrow> (Inl e, fs) | (Inr u, fs) \<Rightarrow> k fs)"

text \<open>
  \<open>Path.mkdir(parents=True, exist_ok=True)\<close>, as \<open>pathlib\<close> writes it: try \<open>os.mkdir\<close>;
  on \<open>FileNotFoundError\<close> make the parent (the path without its last component) this
  way and try once more; any other error is swallowed when the path is a directory.
\<close>

definition mkdir_exist_ok :: "fsys \<Rightarrow> path \<Rightarrow> (exn + unit) \<times> fsys" where
  "mkdir_exist_ok fs p =
     (case os_mkdir fs p of
        Inr fs' \<Rightarrow> (Inr (), fs')
      | Inl e \<Rightarrow>
          if e = FileNotFoundError then (Inl e, fs)
          else if is_dir fs p then (Inr (), fs)
          else (Inl e, fs))"

function mkdir_parents :: "fsys \<Rightarrow> path \<Rightarrow> (exn + unit) \<times> fsys" where
  "mkdir_parents fs p =
     (case os_mkdir fs p of
        Inr fs' \<Rightarrow> (Inr (), fs')
      | Inl e \<Rightarrow>
          if e = FileNotFoundError then
            (if parent p = p then (Inl e, fs)
             else and_then (mkdir_parents fs (parent p)) (\<lambda>fs1. mkdir_exist_ok fs1 p))
          else if is_dir fs p then (Inr (), fs)
          else (Inl e, fs))"
  by pat_completeness auto
termination
proof (relation "measure (\<lambda>(fs, p). case p of Path a xs \<Rightarrow> length xs)")
  show "wf (measure (\<lambda>(fs, p). case p of Path a xs \<Rightarrow> length xs))" by simp
next
  fix fs :: fsys and p :: path and e :: exn
  assume "parent p \<noteq> p"
  then show "((fs, parent p), (fs, p)) \<in> measure (\<lambda>(fs, p). case p of Path a xs \<Rightarrow> length xs)"
    by (cases p) (auto simp: butlast_conv_take neq_Nil_conv)
qed

declare mkdir_parents.simps [simp del]

subsection \<open>\<open>write_text\<close>\<close>

definition write_text :: "fsys \<Rightarrow> path \<Rightarrow> string \<Rightarrow> (exn + unit) \<times> fsys" where
  "write_text fs p content =
     and_then (mkdir_parents fs (parent p))
       (\<lambda>fs1. case write_file fs1 p content of
                 Inl e \<Rightarrow> (Inl e, fs1)
               | Inr fs2 \<Rightarrow> (Inr (), fs2))"

subsection \<open>\<open>shutil.copy2\<close>\<close>

text \<open>
  \<open>copy2(src, dst)\<close> copies into \<open>dst\<close> under the name of \<open>src\<close> when \<open>dst\<close> is a
  directory; \<open>copyfile\<close> refuses to copy a file onto itself, then opens the source for
  reading and the destination for writing.  The copied metadata is not modelled.
\<close>

definition samefile :: "fsys \<Rightarrow> path \<Rightarrow> path \<Rightarrow> bool" where
  "samefile fs p1 p2 =
     (case (resolve fs p1, resolve fs p2) of
        (Inr q1, Inr q2) \<Rightarrow> q1 = q2 \<and> nodes fs q1 \<noteq> None
      | _ \<Rightarrow> False)"

definition copyfile :: "fsys \<Rightarrow> path \<Rightarrow> path \<Rightarrow> (exn + unit) \<times> fsys" where
  "copyfile fs src dst =
     (if samefile fs src dst then (Inl SameFileError, fs)
      else case read_file fs src of
             Inl e \<Rightarrow> (Inl e, fs)
           | Inr data \<Rightarrow>
               (case write_file fs dst data of
                  Inl e \<Rightarrow> (Inl e, fs)
                | Inr fs' \<Rightarrow> (Inr (), fs')))"

definition copy2 :: "fsys \<Rightarrow> path \<Rightarrow> path \<Rightarrow> (exn + unit) \<times> fsys" where
  "copy2 fs src dst =
     copyfile fs src (if is_dir fs dst then slash dst (basename (str_path src)) else dst)"

section \<open>\<open>create_project\<close>\<close>

text \<open>The texts \<open>create_project\<close> renders, and the path of the activity's source.\<close>

definition settings_gradle :: "string \<Rightarrow> string" where
  "settings_gradle project_name = replace SETTINGS_GRADLE ''__PROJECT_NAME__'' project_name"

definition app_build_gradle :: "string \<Rightarrow> int \<Rightarrow> int \<Rightarrow> int \<Rightarrow> string" where
  "app_build_gradle application_id compile_sdk min_sdk target_sdk =
     replace
       (replace
          (replace
             (replace APP_BUILD_GRADLE ''__APPLICATION_ID__'' application_id)
             ''__COMPILE_SDK__'' (str_int compile_sdk))
          ''__MIN_SDK__'' (str_int min_sdk))
       ''__TARGET_SDK__'' (str_int target_sdk)"

text \<open>
  \<open>STRINGS_XML.format(app_name=app_name)\<close>: the template has the one replacement field
  \<open>{app_name}\<close> and no other brace, so formatting it is replacing that field.
\<close>

definition strings_xml :: "string \<Rightarrow> string" where
  "strings_xml app_name = replace STRINGS_XML ''{app_name}'' app_name"

definition main_activity :: "string \<Rightarrow> string" where
  "main_activity application_id =
     replace MAIN_ACTIVITY_TEMPLATE ''__APPLICATION_ID__'' application_id"

definition main_activity_path :: "path \<Rightarrow> string \<Rightarrow> path" where
  "main_activity_path project_root application_id =
     slash
       (joinpath
          (slash (slash (slash (slash project_root ''app'') ''src'') ''main'') ''java'')
          (Path_of (split_on CHR ''.'' application_id)))
       ''MainActivity.kt''"

text \<open>
  \<open>if source_file:\<close> holds for every path (a \<open>Path\<close> is never falsy), so the branch is
  taken exactly when a source file was given.
\<close>

definition create_project ::
  "path option \<Rightarrow> path \<Rightarrow> string \<Rightarrow> string \<Rightarrow> string \<Rightarrow> int \<Rightarrow> int \<Rightarrow> int \<Rightarrow> fsys
     \<Rightarrow> (exn + path) \<times> fsys" where
  "create_project source_file output_dir project_name app_name application_id
       compile_sdk min_sdk target_sdk fs0 =
     (let project_root = slash output_dir project_name in
      if path_exists fs0 project_root then (Inl FileExistsError, fs0)
      else
        and_then (write_text fs0 (slash project_root ''settings.gradle.kts'')
                    (settings_gradle project_name)) (\<lambda>fs.
        and_then (write_text fs (slash project_root ''build.gradle.kts'')
                    ROOT_BUILD_GRADLE) (\<lambda>fs.
        and_then (write_text fs (slash project_root ''gradle.properties'')
                    GRADLE_PROPERTIES) (\<lambda>fs.
        and_then (write_text fs (slash (slash project_root ''app'') ''build.gradle.kts'')
                    (app_build_gradle application_id compile_sdk min_sdk target_sdk)) (\<lambda>fs.
        and_then (write_text fs (slash (slash project_root ''app'') ''proguard-rules.pro'')
                    []) (\<lambda>fs.
        and_then (write_text fs
                    (slash (slash (slash (slash project_root ''app'') ''src'') ''main'')
                       ''AndroidManifest.xml'')
                    ANDROID_MANIFEST) (\<lambda>fs.
        and_then (write_text fs
                    (slash (slash (slash (slash (slash (slash project_root ''app'') ''src'')
                       ''main'') ''res'') ''values'') ''strings.xml'')
                    (strings_xml app_name)) (\<lambda>fs.
        (case source_file of
           Some src \<Rightarrow>
             and_then (mkdir_parents fs (parent (main_activity_path project_root application_id)))
               (\<lambda>fs.
             and_then (copy2 fs src (main_activity_path project_root application_id)) (\<lambda>fs.
             (Inr project_root, fs)))
         | None \<Rightarrow>
             and_then (write_text fs (main_activity_path project_root application_id)
                         (main_activity application_id)) (\<lambda>fs.
             (Inr project_root, fs)))))))))))"

section \<open>\<open>run_gradle_build\<close> and \<open>main\<close>\<close>

text \<open>
  What the process prints, what it has asked the system to run, and the file system.
  A message stands for the line printed; the text itself is not modelled.
\<close>

datatype msg =
    Error_source_missing path
  | Error_exc exn
  | Ok_project path
  | Ok_apk_hint
  | Info_bootstrap
  | Info_command "string list"
  | Ok_built
  | Error_build_failed int
  | Error_gradle_missing

record world =
  files :: fsys
  spawned :: "(string list \<times> path) list"
  printed :: "msg list"

text \<open>
  The host: \<open>sys.platform\<close>, and what running a command in a directory does.  The
  program cannot be started (\<open>NotFound\<close>), or it runs, may change the files, and exits.
\<close>

datatype outcome = NotFound | Exited int fsys

record env =
  platform :: string
  spawn :: "string list \<Rightarrow> path \<Rightarrow> fsys \<Rightarrow> outcome"

definition print :: "msg \<Rightarrow> world \<Rightarrow> world" where
  "print m w = w\<lparr>printed := printed w @ [m]\<rparr>"

text \<open>\<open>subprocess.run(cmd, cwd=dir, check=True)\<close>.\<close>

definition subprocess_run ::
  "env \<Rightarrow> string list \<Rightarrow> path \<Rightarrow> world \<Rightarrow> (exn + unit) \<times> world" where
  "subprocess_run E cmd dir w =
     (let w1 = w\<lparr>spawned := spawned w @ [(cmd, dir)]\<rparr>
      in case spawn E cmd dir (files w) of
           NotFound \<Rightarrow> (Inl FileNotFoundError, w1)
         | Exited returncode fs' \<Rightarrow>
             if returncode \<noteq> 0 then (Inl (CalledProcessError returncode), w1\<lparr>files := fs'\<rparr>)
             else (Inr (), w1\<lparr>files := fs'\<rparr>))"

definition run_gradle_build :: "env \<Rightarrow> path \<Rightarrow> bool \<Rightarrow> world \<Rightarrow> (exn + unit) \<times> world" where
  "run_gradle_build E project_root offline w =
     (let gradlew = (if prefix ''win'' (platform E) then ''gradlew.bat'' else ''gradlew'');
          gradlew_path = slash project_root gradlew;
          cmd = [str_path gradlew_path, ''assembleDebug''] @ (if offline then [''--offline''] else [])
      in if \<not> path_exists (files w) gradlew_path then
           (case subprocess_run E [''gradle'', ''wrapper''] project_root (print Info_bootstrap w) of
              (Inl e, w1) \<Rightarrow> (Inl e, w1)
            | (Inr u, w1) \<Rightarrow> subprocess_run E cmd project_root (print (Info_command cmd) w1))
         else subprocess_run E cmd project_root (print (Info_command cmd) w))"

text \<open>The parsed command line.\<close>

record args =
  arg_source :: "path option"
  arg_out :: path
  arg_project :: string
  arg_app_name :: string
  arg_application_id :: string
  arg_compile_sdk :: int
  arg_min_sdk :: int
  arg_target_sdk :: int
  arg_build :: bool
  arg_offline :: bool

text \<open>
  \<open>main\<close> returns the exit code; an exception it does not catch ends the process with
  a traceback instead (\<open>Inl\<close>).
\<close>

definition main :: "env \<Rightarrow> args \<Rightarrow> world \<Rightarrow> (exn + int) \<times> world" where
  "main E a w =
     (let project_name = safe_name (arg_project a) ''AiGeneratedAndroidApp'';
          source_file = arg_source a
      in case (case source_file of
                 Some src \<Rightarrow> if \<not> path_exists (files w) src then Some src else None
               | None \<Rightarrow> None) of
           Some src \<Rightarrow> (Inr 2, print (Error_source_missing src) w)
         | None \<Rightarrow>
            (case create_project source_file (arg_out a) project_name (arg_app_name a)
                    (arg_application_id a) (arg_compile_sdk a) (arg_min_sdk a)
                    (arg_target_sdk a) (files w) of
               (Inl exc, fs') \<Rightarrow>
                 if exc = FileExistsError then (Inr 3, print (Error_exc exc) (w\<lparr>files := fs'\<rparr>))
                 else (Inl exc, w\<lparr>files := fs'\<rparr>)
             | (Inr project_root, fs') \<Rightarrow>
                 (let w1 = print Ok_apk_hint (print (Ok_project project_root) (w\<lparr>files := fs'\<rparr>))
                  in if arg_build a then
                       (case run_gradle_build E project_root (arg_offline a) w1 of
                          (Inr u, w2) \<Rightarrow> (Inr 0, print Ok_built w2)
                        | (Inl (CalledProcessError returncode), w2) \<Rightarrow>
                            (Inr (if returncode \<noteq> 0 then returncode else 1),
                             print (Error_build_failed returncode) w2)
                        | (Inl FileNotFoundError, w2) \<Rightarrow> (Inr 4, print Error_gradle_missing w2)
                        | (Inl exc, w2) \<Rightarrow> (Inl exc, w2))
                     else (Inr 0, w1))))"

section \<open>The templates at their placeholders\<close>

text \<open>
  The text of the app module's build file before its first placeholder and after its
  last one, and the text of the activity template after its first line; the lemmas
  \<open>APP_BUILD_GRADLE_split\<close> and \<open>MAIN_ACTIVITY_split\<close> below show that
  these are the parts of the templates.  \<open>no_double a s\<close>: the character \<open>a\<close> never
  stands twice in a row in \<open>s\<close>.  \<open>id_in_build\<close> is what the three later
  replacements of \<open>app_build_gradle\<close> make of the application id.
\<close>

definition build_head :: string where
  \<open>build_head = text_lines
    [''plugins {'',
     ''    id("com.android.application")'',
     ''    id("org.jetbrains.kotlin.android")'',
     ''}'',
     '''',
     ''android {''] @ ''    namespace = ''\<close>

definition build_tail :: string where
  \<open>build_tail = text_lines
    [''        versionCode = 1'',
     ''        versionName = "1.0"'',
     '''',
     ''        testInstrumentationRunner = "androidx.test.runner.AndroidJUnitRunner"'',
     ''    }'',
     '''',
     ''    buildTypes {'',
     ''        release {'',
     ''            isMinifyEnabled = false'',
     ''            proguardFiles('',
     ''                getDefaultProguardFile("proguard-android-optimize.txt"),'',
     ''                "proguard-rules.pro"'',
     ''            )'',
     ''        }'',
     ''    }'',
     '''',
     ''    compileOptions {'',
     ''        sourceCompatibility = JavaVersion.VERSION_17'',
     ''        targetCompatibility = JavaVersion.VERSION_17'',
     ''    }'',
     '''',
     ''    kotlinOptions {'',
     ''        jvmTarget = "17"'',
     ''    }'',
     ''}'',
     '''',
     ''dependencies {'',
     ''    implementation("androidx.core:core-ktx:1.13.1")'',
     ''    implementation("androidx.appcompat:appcompat:1.7.0")'',
     ''    implementation("com.google.android.material:material:1.12.0")'',
     ''}'']\<close>

definition activity_tail :: string where
  \<open>activity_tail = text_lines
    ['''',
     ''import android.os.Bundle'',
     ''import android.widget.TextView'',
     ''import androidx.appcompat.app.AppCompatActivity'',
     '''',
     ''class MainActivity : AppCompatActivity() {'',
     ''    override fun onCreate(savedInstanceState: Bundle?) {'',
     ''        super.onCreate(savedInstanceState)'',
     ''        val textView = TextView(this).apply {'',
     ''            text = "Hello from generated Android app"'',
     ''            textSize = 24f'',
     ''        }'',
     ''        setContentView(textView)'',
     ''    }'',
     ''}'']\<close>

fun no_double :: "char \<Rightarrow> string \<Rightarrow> bool" where
  "no_double a (x # y # s) = (\<not> (x = a \<and> y = a) \<and> no_double a (y # s))"
| "no_double a s = True"

definition decimal_digit :: "char \<Rightarrow> bool" where
  "decimal_digit c = (c \<in> set ''0123456789'')"

definition id_in_build :: "string \<Rightarrow> int \<Rightarrow> int \<Rightarrow> int \<Rightarrow> string" where
  "id_in_build application_id compile_sdk min_sdk target_sdk =
     replace
       (replace
          (replace application_id ''__COMPILE_SDK__'' (str_int compile_sdk))
          ''__MIN_SDK__'' (str_int min_sdk))
       ''__TARGET_SDK__'' (str_int target_sdk)"

section \<open>The files \<open>create_project\<close> writes\<close>

text \<open>
  The seven files \<open>create_project\<close> writes before the activity's source, in its order:
  path and text.  \<open>write_all\<close> writes such a list with \<open>write_text\<close>, one file after
  the other, and stops at the first exception.  The lemma \<open>create_project_unfold\<close> below
  shows that \<open>create_project\<close> is \<open>write_all\<close> on \<open>generated_files\<close>, followed by the step for
  the activity's source.
\<close>

definition generated_files ::
  "path \<Rightarrow> string \<Rightarrow> string \<Rightarrow> string \<Rightarrow> int \<Rightarrow> int \<Rightarrow> int \<Rightarrow> (path \<times> string) list" where
  "generated_files project_root project_name app_name application_id
       compile_sdk min_sdk target_sdk =
     [(slash project_root ''settings.gradle.kts'', settings_gradle project_name),
      (slash project_root ''build.gradle.kts'', ROOT_BUILD_GRADLE),
      (slash project_root ''gradle.properties'', GRADLE_PROPERTIES),
      (slash (slash project_root ''app'') ''build.gradle.kts'',
         app_build_gradle application_id compile_sdk min_sdk target_sdk),
      (slash (slash project_root ''app'') ''proguard-rules.pro'', []),
      (slash (slash (slash (slash project_root ''app'') ''src'') ''main'')
         ''AndroidManifest.xml'', ANDROID_MANIFEST),
      (slash (slash (slash (slash (slash (slash project_root ''app'') ''src'') ''main'')
         ''res'') ''values'') ''strings.xml'', strings_xml app_name)]"

fun write_all :: "fsys \<Rightarrow> (path \<times> string) list \<Rightarrow> (exn + unit) \<times> fsys" where
  "write_all fs [] = (Inr (), fs)"
| "write_all fs ((p, c) # ws) = and_then (write_text fs p c) (\<lambda>fs1. write_all fs1 ws)"

text \<open>
  \<open>writes Q fs fs'\<close>: from \<open>fs\<close> to \<open>fs'\<close> the working directory is the same, every
  directory is still one, and every file outside the locations \<open>Q\<close> has its bytes.
\<close>

definition writes :: "loc set \<Rightarrow> fsys \<Rightarrow> fsys \<Rightarrow> bool" where
  "writes Q fs fs' =
     (cwd fs' = cwd fs
      \<and> (\<forall>q. nodes fs q = Some Dir \<longrightarrow> nodes fs' q = Some Dir)
      \<and> (\<forall>q d. q \<notin> Q \<longrightarrow> nodes fs q = Some (File d) \<longrightarrow> nodes fs' q = Some (File d)))"

section \<open>Example file systems and hosts\<close>

text \<open>
  A file system with only the root directory, the process working in it, and what
  \<open>create_project\<close> makes of it: for the application id \<open>com.example.app\<close>
  (\<open>project_Foo\<close>) and for \<open>com..app\<close> (\<open>project_collapsed\<close>).
\<close>

definition fs_empty :: fsys where
  "fs_empty = \<lparr>nodes = [[] \<mapsto> Dir], cwd = []\<rparr>"

definition project_Foo :: fsys where
  "project_Foo =
     \<lparr>nodes =
        [[] \<mapsto> Dir,
         [''dist''] \<mapsto> Dir,
         [''dist'', ''Foo''] \<mapsto> Dir,
         [''dist'', ''Foo'', ''settings.gradle.kts''] \<mapsto> File (settings_gradle ''Foo''),
         [''dist'', ''Foo'', ''build.gradle.kts''] \<mapsto> File ROOT_BUILD_GRADLE,
         [''dist'', ''Foo'', ''gradle.properties''] \<mapsto> File GRADLE_PROPERTIES,
         [''dist'', ''Foo'', ''app''] \<mapsto> Dir,
         [''dist'', ''Foo'', ''app'', ''build.gradle.kts''] \<mapsto>
           File (app_build_gradle ''com.example.app'' 34 24 34),
         [''dist'', ''Foo'', ''app'', ''proguard-rules.pro''] \<mapsto> File [],
         [''dist'', ''Foo'', ''app'', ''src''] \<mapsto> Dir,
         [''dist'', ''Foo'', ''app'', ''src'', ''main''] \<mapsto> Dir,
         [''dist'', ''Foo'', ''app'', ''src'', ''main'', ''AndroidManifest.xml''] \<mapsto>
           File ANDROID_MANIFEST,
         [''dist'', ''Foo'', ''app'', ''src'', ''main'', ''res''] \<mapsto> Dir,
         [''dist'', ''Foo'', ''app'', ''src'', ''main'', ''res'', ''values''] \<mapsto> Dir,
         [''dist'', ''Foo'', ''app'', ''src'', ''main'', ''res'', ''values'', ''strings.xml''] \<mapsto>
           File (strings_xml ''Foo App''),
         [''dist'', ''Foo'', ''app'', ''src'', ''main'', ''java''] \<mapsto> Dir,
         [''dist'', ''Foo'', ''app'', ''src'', ''main'', ''java'', ''com''] \<mapsto> Dir,
         [''dist'', ''Foo'', ''app'', ''src'', ''main'', ''java'', ''com'', ''example''] \<mapsto> Dir,
         [''dist'', ''Foo'', ''app'', ''src'', ''main'', ''java'', ''com'', ''example'', ''app''] \<mapsto> Dir,
         [''dist'', ''Foo'', ''app'', ''src'', ''main'', ''java'', ''com'', ''example'', ''app'',
          ''MainActivity.kt''] \<mapsto> File (main_activity ''com.example.app'')],
      cwd = []\<rparr>"

definition project_collapsed :: fsys where
  "project_collapsed =
     \<lparr>nodes =
        [[] \<mapsto> Dir,
         [''dist''] \<mapsto> Dir,
         [''dist'', ''Foo''] \<mapsto> Dir,
         [''dist'', ''Foo'', ''settings.gradle.kts''] \<mapsto> File (settings_gradle ''Foo''),
         [''dist'', ''Foo'', ''build.gradle.kts''] \<mapsto> File ROOT_BUILD_GRADLE,
         [''dist'', ''Foo'', ''gradle.properties''] \<mapsto> File GRADLE_PROPERTIES,
         [''dist'', ''Foo'', ''app''] \<mapsto> Dir,
         [''dist'', ''Foo'', ''app'', ''build.gradle.kts''] \<mapsto>
           File (app_build_gradle ''com..app'' 34 24 34),
         [''dist'', ''Foo'', ''app'', ''proguard-rules.pro''] \<mapsto> File [],
         [''dist'', ''Foo'', ''app'', ''src''] \<mapsto> Dir,
         [''dist'', ''Foo'', ''app'', ''src'', ''main''] \<mapsto> Dir,
         [''dist'', ''Foo'', ''app'', ''src'', ''main'', ''AndroidManifest.xml''] \<mapsto>
           File ANDROID_MANIFEST,
         [''dist'', ''Foo'', ''app'', ''src'', ''main'', ''res''] \<mapsto> Dir,
         [''dist'', ''Foo'', ''app'', ''src'', ''main'', ''res'', ''values''] \<mapsto> Dir,
         [''dist'', ''Foo'', ''app'', ''src'', ''main'', ''res'', ''values'', ''strings.xml''] \<mapsto>
           File (strings_xml ''Foo App''),
         [''dist'', ''Foo'', ''app'', ''src'', ''main'', ''java''] \<mapsto> Dir,
         [''dist'', ''Foo'', ''app'', ''src'', ''main'', ''java'', ''com''] \<mapsto> Dir,
         [''dist'', ''Foo'', ''app'', ''src'', ''main'', ''java'', ''com'', ''app''] \<mapsto> Dir,
         [''dist'', ''Foo'', ''app'', ''src'', ''main'', ''java'', ''com'', ''app'',
          ''MainActivity.kt''] \<mapsto> File (main_activity ''com..app'')],
      cwd = []\<rparr>"

text \<open>
  A file system with a source file beside the root directory, and what \<open>create_project\<close>
  makes of it with that source file (\<open>project_copied\<close>) and without one
  (\<open>project_beside\<close>).
\<close>

definition fs_with_source :: fsys where
  "fs_with_source = \<lparr>nodes = [[] \<mapsto> Dir, [''Main.kt''] \<mapsto> File ''class {''], cwd = []\<rparr>"

definition project_copied :: fsys where
  "project_copied =
     \<lparr>nodes =
        [[] \<mapsto> Dir,
         [''Main.kt''] \<mapsto> File ''class {'',
         [''dist''] \<mapsto> Dir,
         [''dist'', ''Foo''] \<mapsto> Dir,
         [''dist'', ''Foo'', ''settings.gradle.kts''] \<mapsto> File (settings_gradle ''Foo''),
         [''dist'', ''Foo'', ''build.gradle.kts''] \<mapsto> File ROOT_BUILD_GRADLE,
         [''dist'', ''Foo'', ''gradle.properties''] \<mapsto> File GRADLE_PROPERTIES,
         [''dist'', ''Foo'', ''app''] \<mapsto> Dir,
         [''dist'', ''Foo'', ''app'', ''build.gradle.kts''] \<mapsto> File (app_build_gradle ''com.example.app'' 34 24 34),
         [''dist'', ''Foo'', ''app'', ''proguard-rules.pro''] \<mapsto> File [],
         [''dist'', ''Foo'', ''app'', ''src''] \<mapsto> Dir,
         [''dist'', ''Foo'', ''app'', ''src'', ''main''] \<mapsto> Dir,
         [''dist'', ''Foo'', ''app'', ''src'', ''main'', ''AndroidManifest.xml''] \<mapsto> File ANDROID_MANIFEST,
         [''dist'', ''Foo'', ''app'', ''src'', ''main'', ''res''] \<mapsto> Dir,
         [''dist'', ''Foo'', ''app'', ''src'', ''main'', ''res'', ''values''] \<mapsto> Dir,
         [''dist'', ''Foo'', ''app'', ''src'', ''main'', ''res'', ''values'', ''strings.xml''] \<mapsto> File (strings_xml ''Foo App''),
         [''dist'', ''Foo'', ''app'', ''src'', ''main'', ''java''] \<mapsto> Dir,
         [''dist'', ''Foo'', ''app'', ''src'', ''main'', ''java'', ''com''] \<mapsto> Dir,
         [''dist'', ''Foo'', ''app'', ''src'', ''main'', ''java'', ''com'', ''example''] \<mapsto> Dir,
         [''dist'', ''Foo'', ''app'', ''src'', ''main'', ''java'', ''com'', ''example'', ''app''] \<mapsto> Dir,
         [''dist'', ''Foo'', ''app'', ''src'', ''main'', ''java'', ''com'', ''example'', ''app'',
          ''MainActivity.kt''] \<mapsto> File ''class {''],
      cwd = []\<rparr>"

definition project_beside :: fsys where
  "project_beside =
     \<lparr>nodes =
        [[] \<mapsto> Dir,
         [''Main.kt''] \<mapsto> File ''class {'',
         [''dist''] \<mapsto> Dir,
         [''dist'', ''Foo''] \<mapsto> Dir,
         [''dist'', ''Foo'', ''settings.gradle.kts''] \<mapsto> File (settings_gradle ''Foo''),
         [''dist'', ''Foo'', ''build.gradle.kts''] \<mapsto> File ROOT_BUILD_GRADLE,
         [''dist'', ''Foo'', ''gradle.properties''] \<mapsto> File GRADLE_PROPERTIES,
         [''dist'', ''Foo'', ''app''] \<mapsto> Dir,
         [''dist'', ''Foo'', ''app'', ''build.gradle.kts''] \<mapsto> File (app_build_gradle ''com.example.app'' 34 24 34),
         [''dist'', ''Foo'', ''app'', ''proguard-rules.pro''] \<mapsto> File [],
         [''dist'', ''Foo'', ''app'', ''src''] \<mapsto> Dir,
         [''dist'', ''Foo'', ''app'', ''src'', ''main''] \<mapsto> Dir,
         [''dist'', ''Foo'', ''app'', ''src'', ''main'', ''AndroidManifest.xml''] \<mapsto> File ANDROID_MANIFEST,
         [''dist'', ''Foo'', ''app'', ''src'', ''main'', ''res''] \<mapsto> Dir,
         [''dist'', ''Foo'', ''app'', ''src'', ''main'', ''res'', ''values''] \<mapsto> Dir,
         [''dist'', ''Foo'', ''app'', ''src'', ''main'', ''res'', ''values'', ''strings.xml''] \<mapsto> File (strings_xml ''Foo App''),
         [''dist'', ''Foo'', ''app'', ''src'', ''main'', ''java''] \<mapsto> Dir,
         [''dist'', ''Foo'', ''app'', ''src'', ''main'', ''java'', ''com''] \<mapsto> Dir,
         [''dist'', ''Foo'', ''app'', ''src'', ''main'', ''java'', ''com'', ''example''] \<mapsto> Dir,
         [''dist'', ''Foo'', ''app'', ''src'', ''main'', ''java'', ''com'', ''example'', ''app''] \<mapsto> Dir,
         [''dist'', ''Foo'', ''app'', ''src'', ''main'', ''java'', ''com'', ''example'', ''app'',
          ''MainActivity.kt''] \<mapsto> File (main_activity ''com.example.app'')],
      cwd = []\<rparr>"

text \<open>
  File systems on which a copied source file does not end up as in \<open>project_copied\<close>.
  In \<open>fs_pre_dir\<close> there is a directory \<open>/pre/MainActivity.kt\<close>; \<open>project_into_dir\<close> is what
  \<open>create_project\<close> makes of it with the source file \<open>Main.kt\<close> and the application id
  \<open>/pre\<close>, and \<open>project_outside\<close> what it makes of \<open>fs_with_source\<close>, which has no
  \<open>/pre\<close>, with the same arguments.  In \<open>fs_aliased\<close> the directory \<open>Foo\<close> holds a file
  \<open>settings.gradle.kts\<close> and there is no \<open>dist\<close>; \<open>project_aliased\<close> is what
  \<open>create_project\<close> makes of it with the output directory \<open>dist/..\<close>, the project name
  \<open>Foo\<close> and that file as the source file.  \<open>fs_other_source\<close> has other bytes in
  \<open>Main.kt\<close> and has a directory \<open>dist\<close> already; \<open>project_copied_other\<close> is what
  \<open>create_project\<close> makes of it with the arguments of \<open>project_copied\<close>.
\<close>

definition fs_pre_dir :: fsys where
  "fs_pre_dir =
     \<lparr>nodes = [[] \<mapsto> Dir, [''Main.kt''] \<mapsto> File ''class {'', [''pre''] \<mapsto> Dir,
               [''pre'', ''MainActivity.kt''] \<mapsto> Dir],
      cwd = []\<rparr>"

definition project_into_dir :: fsys where
  "project_into_dir =
     \<lparr>nodes =
        [[] \<mapsto> Dir,
         [''Main.kt''] \<mapsto> File ''class {'',
         [''pre''] \<mapsto> Dir,
         [''pre'', ''MainActivity.kt''] \<mapsto> Dir,
         [''dist''] \<mapsto> Dir,
         [''dist'', ''Foo''] \<mapsto> Dir,
         [''dist'', ''Foo'', ''settings.gradle.kts''] \<mapsto> File (settings_gradle ''Foo''),
         [''dist'', ''Foo'', ''build.gradle.kts''] \<mapsto> File ROOT_BUILD_GRADLE,
         [''dist'', ''Foo'', ''gradle.properties''] \<mapsto> File GRADLE_PROPERTIES,
         [''dist'', ''Foo'', ''app''] \<mapsto> Dir,
         [''dist'', ''Foo'', ''app'', ''build.gradle.kts''] \<mapsto> File (app_build_gradle ''/pre'' 34 24 34),
         [''dist'', ''Foo'', ''app'', ''proguard-rules.pro''] \<mapsto> File [],
         [''dist'', ''Foo'', ''app'', ''src''] \<mapsto> Dir,
         [''dist'', ''Foo'', ''app'', ''src'', ''main''] \<mapsto> Dir,
         [''dist'', ''Foo'', ''app'', ''src'', ''main'', ''AndroidManifest.xml''] \<mapsto> File ANDROID_MANIFEST,
         [''dist'', ''Foo'', ''app'', ''src'', ''main'', ''res''] \<mapsto> Dir,
         [''dist'', ''Foo'', ''app'', ''src'', ''main'', ''res'', ''values''] \<mapsto> Dir,
         [''dist'', ''Foo'', ''app'', ''src'', ''main'', ''res'', ''values'', ''strings.xml''] \<mapsto> File (strings_xml ''Foo App''),
         [''pre'', ''MainActivity.kt'', ''Main.kt''] \<mapsto> File ''class {''],
      cwd = []\<rparr>"


definition fs_aliased :: fsys where
  "fs_aliased =
     \<lparr>nodes = [[] \<mapsto> Dir, [''Foo''] \<mapsto> Dir,
               [''Foo'', ''settings.gradle.kts''] \<mapsto> File ''// mine''],
      cwd = []\<rparr>"

definition project_aliased :: fsys where
  "project_aliased =
     \<lparr>nodes =
        [[] \<mapsto> Dir,
         [''Foo''] \<mapsto> Dir,
         [''dist''] \<mapsto> Dir,
         [''Foo'', ''settings.gradle.kts''] \<mapsto> File (settings_gradle ''Foo''),
         [''Foo'', ''build.gradle.kts''] \<mapsto> File ROOT_BUILD_GRADLE,
         [''Foo'', ''gradle.properties''] \<mapsto> File GRADLE_PROPERTIES,
         [''Foo'', ''app''] \<mapsto> Dir,
         [''Foo'', ''app'', ''build.gradle.kts''] \<mapsto> File (app_build_gradle ''com.example.app'' 34 24 34),
         [''Foo'', ''app'', ''proguard-rules.pro''] \<mapsto> File [],
         [''Foo'', ''app'', ''src''] \<mapsto> Dir,
         [''Foo'', ''app'', ''src'', ''main''] \<mapsto> Dir,
         [''Foo'', ''app'', ''src'', ''main'', ''AndroidManifest.xml''] \<mapsto> File ANDROID_MANIFEST,
         [''Foo'', ''app'', ''src'', ''main'', ''res''] \<mapsto> Dir,
         [''Foo'', ''app'', ''src'', ''main'', ''res'', ''values''] \<mapsto> Dir,
         [''Foo'', ''app'', ''src'', ''main'', ''res'', ''values'', ''strings.xml''] \<mapsto> File (strings_xml ''Foo App''),
         [''Foo'', ''app'', ''src'', ''main'', ''java''] \<mapsto> Dir,
         [''Foo'', ''app'', ''src'', ''main'', ''java'', ''com''] \<mapsto> Dir,
         [''Foo'', ''app'', ''src'', ''main'', ''java'', ''com'', ''example''] \<mapsto> Dir,
         [''Foo'', ''app'', ''src'', ''main'', ''java'', ''com'', ''example'', ''app''] \<mapsto> Dir,
         [''Foo'', ''app'', ''src'', ''main'', ''java'', ''com'', ''example'', ''app'',
          ''MainActivity.kt''] \<mapsto> File (settings_gradle ''Foo'')],
      cwd = []\<rparr>"



text \<open>
  A host on which no program can be started, and one where \<open>gradle\<close> is installed and
  every command exits with code 1; a process that has printed and run nothing yet; a
  command line that asks for the build.
\<close>

definition host_without_gradle :: env where
  "host_without_gradle = \<lparr>platform = ''linux'', spawn = (\<lambda>cmd dir fs. NotFound)\<rparr>"

definition host_gradle_fails :: env where
  "host_gradle_fails = \<lparr>platform = ''linux'', spawn = (\<lambda>cmd dir fs. Exited 1 fs)\<rparr>"

definition fresh_world :: world where
  "fresh_world = \<lparr>files = fs_empty, spawned = [], printed = []\<rparr>"

definition build_args :: args where
  "build_args =
     \<lparr>arg_source = None, arg_out = Path False [''dist''], arg_project = ''Foo'',
      arg_app_name = ''Foo App'', arg_application_id = ''com.example.app'',
      arg_compile_sdk = 34, arg_min_sdk = 24, arg_target_sdk = 34,
      arg_build = True, arg_offline = True\<rparr>"

section \<open>The name sanitizer\<close>

lemma whitespace_nonempty: "w \<in> set whitespace \<Longrightarrow> w \<noteq> []"
  by (auto simp: whitespace_def)

lemma space_prefix_take:
  assumes "space_prefix s \<noteq> 0"
  shows "take (space_prefix s) s \<in> set whitespace \<and> space_prefix s \<le> length s"
proof -
  from assms obtain w where f: "find (\<lambda>w. prefix w s) whitespace = Some w"
    by (auto simp: space_prefix_def split: option.splits)
  then have w: "w \<in> set whitespace" "prefix w s"
    by (auto simp: find_Some_iff)
  from f have l: "space_prefix s = length w"
    by (simp add: space_prefix_def)
  from w(2) obtain r where "s = w @ r"
    by (auto simp: prefix_def)
  with w(1) l show ?thesis by simp
qed

lemma space_suffix_drop:
  assumes "space_suffix s \<noteq> 0"
  shows "drop (length s - space_suffix s) s \<in> set whitespace \<and> space_suffix s \<le> length s"
proof -
  from assms obtain w where f: "find (\<lambda>w. suffix w s) whitespace = Some w"
    by (auto simp: space_suffix_def split: option.splits)
  then have w: "w \<in> set whitespace" "suffix w s"
    by (auto simp: find_Some_iff)
  from f have l: "space_suffix s = length w"
    by (simp add: space_suffix_def)
  from w(2) obtain r where "s = r @ w"
    by (auto simp: suffix_def)
  with w(1) l show ?thesis by simp
qed

lemma whitespace_not_name: "w \<in> set whitespace \<Longrightarrow> filter name_char w = []"
  by (auto simp: whitespace_def name_char_def)

lemma re_sub_lstrip: "re_sub_delete (lstrip s) = re_sub_delete s"
proof (induction s rule: lstrip.induct)
  case (1 s)
  show ?case
  proof (cases "space_prefix s = 0")
    case True
    then show ?thesis by (simp add: lstrip.simps)
  next
    case False
    from space_prefix_take [OF False]
    have "filter name_char (take (space_prefix s) s) = []"
      by (simp add: whitespace_not_name)
    then have "filter name_char s = filter name_char (drop (space_prefix s) s)"
      by (metis append_Nil append_take_drop_id filter_append)
    with False 1 show ?thesis
      by (subst lstrip.simps) (simp add: re_sub_delete_def)
  qed
qed

lemma re_sub_rstrip: "re_sub_delete (rstrip s) = re_sub_delete s"
proof (induction s rule: rstrip.induct)
  case (1 s)
  show ?case
  proof (cases "space_suffix s = 0")
    case True
    then show ?thesis by (simp add: rstrip.simps)
  next
    case False
    from space_suffix_drop [OF False]
    have "filter name_char (drop (length s - space_suffix s) s) = []"
      by (simp add: whitespace_not_name)
    then have "filter name_char s = filter name_char (take (length s - space_suffix s) s)"
      by (metis append_Nil2 append_take_drop_id filter_append)
    with False 1 show ?thesis
      by (subst rstrip.simps) (simp add: re_sub_delete_def)
  qed
qed

lemma safe_name_filter:
  "safe_name s f = (if filter name_char s = [] then f else filter name_char s)"
  using re_sub_lstrip [of s] re_sub_rstrip [of "lstrip s"]
  by (simp add: safe_name_def strip_def re_sub_delete_def Let_def)

text \<open>
  C3 (amended).  For every string \<open>s\<close> and fallback \<open>f\<close>, \<open>safe_name s f\<close> is what is
  left of the trimmed \<open>s\<close> after deleting every character outside \<open>[A-Za-z0-9_-]\<close>, which
  is what is left of \<open>s\<close> itself; when nothing is left, it is the fallback unchanged.  So
  the result has only characters of that set when something is left of \<open>s\<close>, or when the
  fallback has only such characters.  \<open>safe_name "My App!!" f\<close> is \<open>"MyApp"\<close>.  The
  function is total and has no state.
\<close>

theorem safe_name_sanitizes:
  "safe_name s f =
     (if re_sub_delete (strip s) = [] then f else re_sub_delete (strip s))
   \<and> re_sub_delete (strip s) = filter name_char s
   \<and> (filter name_char s \<noteq> [] \<longrightarrow> (\<forall>c\<in>set (safe_name s f). name_char c))
   \<and> ((\<forall>c\<in>set f. name_char c) \<longrightarrow> (\<forall>c\<in>set (safe_name s f). name_char c))
   \<and> safe_name ''My App!!'' f = ''MyApp''"
proof -
  have d: "re_sub_delete (strip s) = filter name_char s"
    using re_sub_lstrip [of s] re_sub_rstrip [of "lstrip s"]
    by (simp add: strip_def re_sub_delete_def)
  have e: "safe_name ''My App!!'' f = ''MyApp''"
    by (simp add: safe_name_filter name_char_def)
  from d e show ?thesis
    by (auto simp: safe_name_filter)
qed

theorem safe_name_sanitizes_witness:
  "safe_name '' a b! '' ''x y'' = ''ab''
   \<and> re_sub_delete (strip '' a b! '') = ''ab''
   \<and> name_char (CHR ''a'') \<and> name_char (CHR ''b'')
   \<and> safe_name ''My App!!'' ''x y'' = ''MyApp''"
  using safe_name_sanitizes [of "'' a b! ''" "''x y''"]
  by (simp add: name_char_def)

text \<open>
  C3 as stated fails where nothing is left of \<open>s\<close> and the fallback has a character
  outside the set: the fallback comes back unchanged, here with its space.
\<close>

theorem safe_name_fallback_counterexample:
  "safe_name ''!!'' ''a b'' = ''a b''
   \<and> CHR '' '' \<in> set (safe_name ''!!'' ''a b'')
   \<and> \<not> name_char (CHR '' '')"
  by (simp add: safe_name_def strip_def lstrip.simps rstrip.simps space_prefix_def
      space_suffix_def whitespace_def re_sub_delete_def name_char_def suffix_to_prefix)

text \<open>
  C10.  For a fallback \<open>f\<close> that is not empty and has only characters of
  \<open>[A-Za-z0-9_-]\<close>, sanitizing twice is sanitizing once:
  \<open>safe_name (safe_name s f) f = safe_name s f\<close> for every \<open>s\<close>.
\<close>

theorem safe_name_idempotent:
  assumes "f \<noteq> []" and "\<forall>c\<in>set f. name_char c"
  shows "safe_name (safe_name s f) f = safe_name s f"
  using assms by (auto simp: safe_name_filter filter_id_conv)

theorem safe_name_idempotent_witness:
  "safe_name (safe_name ''My App!!'' ''App-1'') ''App-1'' = ''MyApp''
   \<and> safe_name (safe_name ''!!'' ''App-1'') ''App-1'' = ''App-1''"
proof -
  have f: "''App-1'' \<noteq> []" "\<forall>c\<in>set ''App-1''. name_char c"
    by (simp_all add: name_char_def)
  have a: "safe_name ''My App!!'' ''App-1'' = ''MyApp''"
    and b: "safe_name ''!!'' ''App-1'' = ''App-1''"
    by (simp_all add: safe_name_filter name_char_def)
  from safe_name_idempotent [OF f, of "''My App!!''"]
    safe_name_idempotent [OF f, of "''!!''"] a b
  show ?thesis by simp
qed

section \<open>Rendering the templates\<close>

lemma replace_Nil: "old \<noteq> [] \<Longrightarrow> replace [] old new = []"
  by (simp add: replace.simps)

lemma replace_Cons:
  "old \<noteq> [] \<Longrightarrow> replace (c # cs) old new =
     (if prefix old (c # cs) then new @ replace (drop (length old) (c # cs)) old new
      else c # replace cs old new)"
  by (subst replace.simps) simp

lemma replace_sep:
  assumes "old \<noteq> []" "c \<notin> set old"
  shows "replace (a @ c # b) old new = replace a old new @ c # replace b old new"
  using assms
proof (induction a old new rule: replace.induct)
  case (1 s old new)
  show ?case
  proof (cases s)
    case Nil
    have "\<not> prefix old (c # b)"
      using 1(3,4) by (cases old) auto
    with Nil 1(3) show ?thesis
      by (simp add: replace_Nil replace_Cons)
  next
    case (Cons x xs)
    show ?thesis
    proof (cases "prefix old (s @ c # b)")
      case True
      then obtain r where r: "s @ c # b = old @ r" by (auto simp: prefix_def)
      have "length old \<le> length s"
      proof (rule ccontr)
        assume "\<not> length old \<le> length s"
        then have "length s < length old" by simp
        then have "old ! length s = (s @ c # b) ! length s"
          using r by (simp add: nth_append)
        then have "old ! length s = c" by simp
        with \<open>length s < length old\<close> 1(4) show False
          by (metis nth_mem)
      qed
      with r have p: "prefix old s"
        by (metis True prefix_length_prefix prefixI)
      have d: "drop (length old) (s @ c # b) = drop (length old) s @ c # b"
        using \<open>length old \<le> length s\<close> by simp
      from 1(1) [OF 1(3) _ p 1(3,4)] Cons have
        "replace (drop (length old) s @ c # b) old new =
           replace (drop (length old) s) old new @ c # replace b old new"
        by simp
      with True p d Cons 1(3) show ?thesis
        by (simp add: replace_Cons del: drop_append)
    next
      case False
      then have np: "\<not> prefix old s"
        by (meson prefix_order.trans prefixI)
      from 1(2) [OF 1(3) _ np 1(3,4)] Cons have
        "replace (xs @ c # b) old new = replace xs old new @ c # replace b old new"
        by simp
      with False np Cons 1(3) show ?thesis
        by (simp add: replace_Cons)
    qed
  qed
qed

lemma no_double_tl: "no_double a (x # s) \<Longrightarrow> no_double a s"
  by (cases s) simp_all

lemma no_double_prefix: "no_double a (x # s) \<Longrightarrow> \<not> prefix (a # a # r) (x # s)"
  by (cases s) auto

lemma replace_Cons_no:
  "old \<noteq> [] \<Longrightarrow> \<not> prefix old (c # cs) \<Longrightarrow> replace (c # cs) old new = c # replace cs old new"
  by (simp add: replace_Cons)

lemma replace_no_double:
  "no_double a s \<Longrightarrow> replace s (a # a # r) new = s"
proof (induction s)
  case Nil
  show ?case by (simp add: replace_Nil)
next
  case (Cons x s)
  from Cons.prems have np: "\<not> prefix (a # a # r) (x # s)"
    by (rule no_double_prefix)
  have "replace (x # s) (a # a # r) new = x # replace s (a # a # r) new"
    by (rule replace_Cons_no) (simp, rule np)
  moreover from Cons.prems have "no_double a s"
    by (rule no_double_tl)
  ultimately show ?case using Cons.IH
    by simp
qed

lemma replace_absent: "old \<noteq> [] \<Longrightarrow> \<not> sublist old s \<Longrightarrow> replace s old new = s"
proof (induction s)
  case Nil
  then show ?case by (simp add: replace_Nil)
next
  case (Cons c s)
  then have "\<not> prefix old (c # s)" "\<not> sublist old s"
    by (auto simp: sublist_Cons_right)
  with Cons show ?case by (simp add: replace_Cons)
qed

lemma head_ok: "no_double CHR ''_'' build_head"
  by (simp add: build_head_def text_lines_def)

lemma tail_ok: "no_double CHR ''_'' build_tail"
  by (simp add: build_tail_def text_lines_def)

lemma act_ok: "no_double CHR ''_'' activity_tail"
  by (simp add: activity_tail_def text_lines_def)

lemma APP_BUILD_GRADLE_split:
  \<open>APP_BUILD_GRADLE =
     build_head @ ''"__APPLICATION_ID__"\<newline>    compileSdk = __COMPILE_SDK__\<newline>\<newline>    defaultConfig {\<newline>        applicationId = "__APPLICATION_ID__"\<newline>        minSdk = __MIN_SDK__\<newline>        targetSdk = __TARGET_SDK__\<newline>'' @ build_tail\<close>
  by (simp add: APP_BUILD_GRADLE_def build_head_def build_tail_def text_lines_def)

lemma MAIN_ACTIVITY_split:
  \<open>MAIN_ACTIVITY_TEMPLATE = ''package __APPLICATION_ID__\<newline>'' @ activity_tail\<close>
  by (simp add: MAIN_ACTIVITY_TEMPLATE_def activity_tail_def text_lines_def)

lemma digit_char_cases:
  "d < 10 \<Longrightarrow> decimal_digit (digit_char d)"
  unfolding digit_char_def decimal_digit_def by (rule nth_mem) simp

lemma digits_set: "list_all decimal_digit (digits n)"
proof (induction n rule: digits.induct)
  case (1 n)
  show ?case
  proof (cases "n < 10")
    case True
    have "digits n = [digit_char n]"
      using True by (subst digits.simps) simp
    with digit_char_cases [OF True] show ?thesis
      by simp
  next
    case False
    have m: "n mod 10 < 10" by simp
    have "digits n = digits (n div 10) @ [digit_char (n mod 10)]"
      using False by (subst digits.simps) simp
    with digit_char_cases [OF m] 1 [OF False] show ?thesis
      by simp
  qed
qed

lemma digits_no_underscore: "CHR ''_'' \<notin> set (digits n)"
proof
  assume "CHR ''_'' \<in> set (digits n)"
  with digits_set [of n] have "decimal_digit (CHR ''_'')"
    by (simp add: list_all_iff)
  then show False by (simp add: decimal_digit_def)
qed

lemma str_int_no_underscore: "CHR ''_'' \<notin> set (str_int i)"
  using digits_no_underscore by (simp add: str_int_def)

lemma replace_first_absent: "c \<notin> set s \<Longrightarrow> replace s (c # r) new = s"
proof (induction s)
  case Nil
  show ?case by (simp add: replace_Nil)
next
  case (Cons x s)
  then have "\<not> prefix (c # r) (x # s)" by auto
  with Cons show ?case by (simp add: replace_Cons)
qed

lemma replace_str_int: "replace (str_int i) (CHR ''_'' # r) new = str_int i"
  using str_int_no_underscore by (rule replace_first_absent)

lemma app_build_gradle_render:
  \<open>app_build_gradle application_id compile_sdk min_sdk target_sdk =
     build_head @ ''"'' @ id_in_build application_id compile_sdk min_sdk target_sdk
       @ ''"\<newline>    compileSdk = '' @ str_int compile_sdk
       @ ''\<newline>\<newline>    defaultConfig {\<newline>        applicationId = "''
       @ id_in_build application_id compile_sdk min_sdk target_sdk
       @ ''"\<newline>        minSdk = '' @ str_int min_sdk
       @ ''\<newline>        targetSdk = '' @ str_int target_sdk
       @ ''\<newline>'' @ build_tail\<close>
  by (simp add: app_build_gradle_def id_in_build_def APP_BUILD_GRADLE_split replace_sep
      replace_Cons replace_Nil replace_no_double [OF head_ok] replace_no_double [OF tail_ok]
      replace_str_int)

lemma main_activity_render:
  \<open>main_activity application_id = ''package '' @ application_id @ ''\<newline>'' @ activity_tail\<close>
  by (simp add: main_activity_def MAIN_ACTIVITY_split replace_sep
      replace_Cons replace_Nil replace_no_double [OF act_ok])

lemma digit_val_char: "d < 10 \<Longrightarrow> digit_val (digit_char d) = d"
proof -
  assume "d < 10"
  then have "d = 0 \<or> d = 1 \<or> d = 2 \<or> d = 3 \<or> d = 4 \<or> d = 5 \<or> d = 6 \<or> d = 7 \<or> d = 8 \<or> d = 9"
    by arith
  then show ?thesis
    by (elim disjE) (simp_all add: digit_val_def digit_char_def)
qed

lemma digit_char_zero: "d < 10 \<Longrightarrow> digit_char d = CHR ''0'' \<Longrightarrow> d = 0"
proof -
  assume d: "d < 10" and z: "digit_char d = CHR ''0''"
  from d have "digit_val (digit_char d) = d" by (rule digit_val_char)
  moreover have "digit_val (CHR ''0'') = 0" by (simp add: digit_val_def)
  ultimately show ?thesis using z by metis
qed

lemma digits_nonempty: "digits n \<noteq> []"
  by (subst digits.simps) simp

lemma decimal_snoc: "decimal (s @ [c]) = 10 * decimal s + digit_val c"
  by (simp add: decimal_def)

lemma decimal_digits: "decimal (digits n) = n"
proof (induction n rule: digits.induct)
  case (1 n)
  show ?case
  proof (cases "n < 10")
    case True
    then have "digits n = [digit_char n]"
      by (subst digits.simps) simp
    with True show ?thesis
      by (simp add: decimal_def digit_val_char)
  next
    case False
    have m: "n mod 10 < 10" by simp
    have "digits n = digits (n div 10) @ [digit_char (n mod 10)]"
      using False by (subst digits.simps) simp
    with 1 [OF False] show ?thesis
      by (simp add: decimal_snoc digit_val_char [OF m])
  qed
qed

lemma digits_leading_zero: "hd (digits n) = CHR ''0'' \<Longrightarrow> n = 0"
proof (induction n rule: digits.induct)
  case (1 n)
  show ?case
  proof (cases "n < 10")
    case True
    then have "digits n = [digit_char n]"
      by (subst digits.simps) simp
    with 1(2) True show ?thesis
      by (simp add: digit_char_zero)
  next
    case False
    have "digits n = digits (n div 10) @ [digit_char (n mod 10)]"
      using False by (subst digits.simps) simp
    with 1(2) have "hd (digits (n div 10)) = CHR ''0''"
      by (simp add: digits_nonempty)
    from 1(1) [OF False this] False show ?thesis by simp
  qed
qed

lemma str_34: "str_int 34 = ''34''" "str_int 24 = ''24''"
  by (simp_all add: str_int_def digits.simps digit_char_def)

text \<open>
  C7.  With \<open>compile_sdk = 34\<close>, \<open>min_sdk = 24\<close>, \<open>target_sdk = 34\<close> the app module's
  build file is the template with \<open>34\<close>, \<open>24\<close>, \<open>34\<close> at \<open>compileSdk\<close>, \<open>minSdk\<close>
  and \<open>targetSdk\<close>, for every application id; outside the placeholders the template's
  text, its numbers included, is unchanged.  In general each version is written by
  \<open>str\<close>: for a number that is not negative, decimal digits only (no separator), which
  denote the number, with no leading zero; for a negative number, a minus sign before the
  digits of its absolute value.
\<close>

theorem sdk_substitution:
  \<open>app_build_gradle application_id 34 24 34 =
     build_head @ ''"'' @ id_in_build application_id 34 24 34
       @ ''"\<newline>    compileSdk = 34\<newline>\<newline>    defaultConfig {\<newline>        applicationId = "''
       @ id_in_build application_id 34 24 34
       @ ''"\<newline>        minSdk = 24\<newline>        targetSdk = 34\<newline>'' @ build_tail
   \<and> APP_BUILD_GRADLE =
     build_head @ ''"__APPLICATION_ID__"\<newline>    compileSdk = __COMPILE_SDK__\<newline>\<newline>    defaultConfig {\<newline>        applicationId = "__APPLICATION_ID__"\<newline>        minSdk = __MIN_SDK__\<newline>        targetSdk = __TARGET_SDK__\<newline>'' @ build_tail
   \<and> app_build_gradle application_id compile_sdk min_sdk target_sdk =
     build_head @ ''"'' @ id_in_build application_id compile_sdk min_sdk target_sdk
       @ ''"\<newline>    compileSdk = '' @ str_int compile_sdk
       @ ''\<newline>\<newline>    defaultConfig {\<newline>        applicationId = "''
       @ id_in_build application_id compile_sdk min_sdk target_sdk
       @ ''"\<newline>        minSdk = '' @ str_int min_sdk
       @ ''\<newline>        targetSdk = '' @ str_int target_sdk
       @ ''\<newline>'' @ build_tail
   \<and> (0 \<le> i \<longrightarrow>
        list_all decimal_digit (str_int i) \<and> str_int i \<noteq> [] \<and> decimal (str_int i) = nat i
        \<and> (hd (str_int i) = CHR ''0'' \<longrightarrow> i = 0))
   \<and> (i < 0 \<longrightarrow> str_int i = CHR ''-'' # str_int (- i))\<close>
proof -
  have a: "0 \<le> i \<longrightarrow>
        list_all decimal_digit (str_int i) \<and> str_int i \<noteq> [] \<and> decimal (str_int i) = nat i
        \<and> (hd (str_int i) = CHR ''0'' \<longrightarrow> i = 0)"
    using digits_leading_zero [of "nat i"]
    by (auto simp: str_int_def digits_set digits_nonempty decimal_digits)
  have b: "i < 0 \<longrightarrow> str_int i = CHR ''-'' # str_int (- i)"
    by (simp add: str_int_def)
  show ?thesis
    using a b app_build_gradle_render [of application_id 34 24 34]
    by (simp add: APP_BUILD_GRADLE_split app_build_gradle_render str_34)
qed

theorem sdk_substitution_witness:
  \<open>app_build_gradle ''com.example.app'' 34 24 34 =
     build_head @ ''"com.example.app"\<newline>    compileSdk = 34\<newline>\<newline>    defaultConfig {\<newline>        applicationId = "com.example.app"\<newline>        minSdk = 24\<newline>        targetSdk = 34\<newline>'' @ build_tail
   \<and> list_all decimal_digit (str_int 34) \<and> decimal (str_int 34) = 34
   \<and> hd (str_int 34) \<noteq> CHR ''0''
   \<and> str_int (- 7) = CHR ''-'' # str_int 7\<close>
proof -
  have x: "id_in_build ''com.example.app'' 34 24 34 = ''com.example.app''"
    by (simp add: id_in_build_def replace_Cons replace_Nil)
  note t = sdk_substitution [where application_id = "''com.example.app''" and i = 34]
  note u = sdk_substitution [where application_id = "''com.example.app''" and i = "- 7"]
  have 1: "str_int (- 7) = CHR ''-'' # str_int 7"
    using u [THEN conjunct2, THEN conjunct2, THEN conjunct2, THEN conjunct2] by simp
  have 2: "list_all decimal_digit (str_int 34) \<and> decimal (str_int 34) = 34
      \<and> hd (str_int 34) \<noteq> CHR ''0''"
    using t [THEN conjunct2, THEN conjunct2, THEN conjunct2, THEN conjunct1] by auto
  from t [THEN conjunct1] x 1 2 show ?thesis by simp
qed

section \<open>Reasoning about the file system\<close>

lemma and_then_Inr:
  "and_then r k = (Inr x, fs') \<longleftrightarrow> (\<exists>u fs1. r = (Inr u, fs1) \<and> k fs1 = (Inr x, fs'))"
  by (cases r) (auto simp: and_then_def split: sum.splits)

lemma and_then_cases:
  assumes "and_then r k = (x, fs')"
  obtains e where "r = (Inl e, fs')" "x = Inl e"
  | u fs1 where "r = (Inr u, fs1)" "k fs1 = (x, fs')"
  using assms by (cases r) (auto simp: and_then_def split: sum.splits)

lemma walk_append:
  "walk t cur (xs @ ys) = (case walk t cur xs of Inl e \<Rightarrow> Inl e | Inr q \<Rightarrow> walk t q ys)"
  by (induction xs arbitrary: cur) (auto split: option.splits node.splits)

lemma walk_names: "''..'' \<notin> set ys \<Longrightarrow> walk t q0 ys = Inr q \<Longrightarrow> q = q0 @ ys"
proof (induction ys arbitrary: q0)
  case Nil
  then show ?case by simp
next
  case (Cons a ys)
  from Cons.prems have "walk t (q0 @ [a]) ys = Inr q"
    by (auto split: option.splits node.splits)
  with Cons.IH [of "q0 @ [a]"] Cons.prems(1) show ?case by simp
qed

lemma walk_snoc:
  assumes "walk t cur (xs @ [x]) = Inr q" "x \<noteq> ''..''"
  shows "\<exists>q'. walk t cur xs = Inr q' \<and> t q' = Some Dir \<and> q = q' @ [x]"
  using assms by (auto simp: walk_append split: sum.splits option.splits node.splits)

lemma walk_mono:
  "\<forall>q. t q = Some Dir \<longrightarrow> t' q = Some Dir \<Longrightarrow> walk t cur xs = Inr q \<Longrightarrow> walk t' cur xs = Inr q"
  by (induction xs arbitrary: cur) (auto split: option.splits node.splits)

lemma writes_refl: "writes Q fs fs"
  by (simp add: writes_def)

lemma writes_trans: "writes Q1 fs fs1 \<Longrightarrow> writes Q2 fs1 fs2 \<Longrightarrow> writes (Q1 \<union> Q2) fs fs2"
  by (simp add: writes_def)

lemma writes_mono: "writes Q fs fs' \<Longrightarrow> Q \<subseteq> Q' \<Longrightarrow> writes Q' fs fs'"
  by (auto simp: writes_def)

lemma writes_trans0: "writes {} fs fs1 \<Longrightarrow> writes Q fs1 fs2 \<Longrightarrow> writes Q fs fs2"
  using writes_trans [of "{}" fs fs1 Q fs2] by simp

lemma resolve_mono: "writes Q fs fs' \<Longrightarrow> resolve fs p = Inr q \<Longrightarrow> resolve fs' p = Inr q"
  by (cases p) (auto simp: writes_def intro: walk_mono)

lemma is_dir_mono:
  assumes "writes Q fs fs'" "is_dir fs p"
  shows "is_dir fs' p"
proof -
  from assms(2) obtain q where q: "resolve fs p = Inr q" "nodes fs q = Some Dir"
    by (auto simp: is_dir_def split: sum.splits)
  from resolve_mono [OF assms(1) q(1)] q(2) assms(1) show ?thesis
    by (simp add: is_dir_def writes_def)
qed

lemma os_mkdir_writes: "os_mkdir fs p = Inr fs' \<Longrightarrow> writes {} fs fs'"
  by (auto simp: os_mkdir_def writes_def split: sum.splits if_splits)

lemma mkdir_exist_ok_writes: "mkdir_exist_ok fs p = (r, fs') \<Longrightarrow> writes {} fs fs'"
  by (auto simp: mkdir_exist_ok_def writes_refl split: sum.splits if_splits dest: os_mkdir_writes)

lemma mkdir_parents_writes: "mkdir_parents fs p = (r, fs') \<Longrightarrow> writes {} fs fs'"
proof (induction fs p arbitrary: r fs' rule: mkdir_parents.induct)
  case (1 fs p)
  show ?case
  proof (cases "os_mkdir fs p")
    case (Inr fs1)
    with 1(2) show ?thesis
      by (subst (asm) mkdir_parents.simps) (auto dest: os_mkdir_writes)
  next
    case (Inl e)
    show ?thesis
    proof (cases "e = FileNotFoundError \<and> parent p \<noteq> p")
      case False
      with Inl 1(2) show ?thesis
        by (subst (asm) mkdir_parents.simps) (auto simp: writes_refl split: if_splits)
    next
      case True
      with Inl 1(2) have a:
        "and_then (mkdir_parents fs (parent p)) (\<lambda>fs1. mkdir_exist_ok fs1 p) = (r, fs')"
        by (subst (asm) mkdir_parents.simps) simp
      from a show ?thesis
      proof (cases rule: and_then_cases)
        case (1 e')
        with "1.IH" [OF Inl] True show ?thesis by blast
      next
        case (2 u fs1)
        from "1.IH" [OF Inl _ _ 2(1)] True have "writes {} fs fs1" by blast
        with mkdir_exist_ok_writes [OF 2(2)] show ?thesis
          using writes_trans0 by blast
      qed
    qed
  qed
qed

lemma write_file_post:
  assumes "write_file fs p d = Inr fs'"
  shows "\<exists>q. resolve fs' p = Inr q \<and> nodes fs' q = Some (File d) \<and> writes {q} fs fs'"
proof -
  from assms obtain q where q: "resolve fs p = Inr q" "nodes fs q \<noteq> Some Dir"
    and fs': "fs' = fs\<lparr>nodes := (nodes fs)(q \<mapsto> File d)\<rparr>"
    by (auto simp: write_file_def split: sum.splits if_splits)
  from q(2) fs' have w: "writes {q} fs fs'"
    by (auto simp: writes_def)
  from resolve_mono [OF w q(1)] fs' w show ?thesis by auto
qed

lemma write_text_post:
  assumes "write_text fs p c = (Inr u, fs')"
  shows "\<exists>q. resolve fs' p = Inr q \<and> nodes fs' q = Some (File c) \<and> writes {q} fs fs'"
proof -
  from assms obtain v fs1 where m: "mkdir_parents fs (parent p) = (Inr v, fs1)"
    and "(case write_file fs1 p c of Inl e \<Rightarrow> (Inl e, fs1) | Inr fs2 \<Rightarrow> (Inr (), fs2)) = (Inr u, fs')"
    by (auto simp: write_text_def and_then_Inr)
  then have f: "write_file fs1 p c = Inr fs'"
    by (auto split: sum.splits)
  from write_file_post [OF f] obtain q where
    q: "resolve fs' p = Inr q" "nodes fs' q = Some (File c)" "writes {q} fs1 fs'"
    by blast
  from writes_trans0 [OF mkdir_parents_writes [OF m] q(3)] q(1,2) show ?thesis by blast
qed

lemma write_all_writes:
  "write_all fs ws = (Inr u, fs') \<Longrightarrow> \<exists>Q. writes Q fs fs'"
proof (induction ws arbitrary: fs)
  case Nil
  then show ?case by (auto intro: writes_refl)
next
  case (Cons a ws)
  obtain p c where a: "a = (p, c)" by (cases a)
  from Cons.prems a obtain v fs1 where
    w: "write_text fs p c = (Inr v, fs1)" and r: "write_all fs1 ws = (Inr u, fs')"
    by (auto simp: and_then_Inr)
  from write_text_post [OF w] Cons.IH [OF r] show ?case
    using writes_trans by blast
qed

lemma write_all_resolves:
  "write_all fs ws = (Inr u, fs') \<Longrightarrow> (p, c) \<in> set ws \<Longrightarrow> \<exists>q. resolve fs' p = Inr q"
proof (induction ws arbitrary: fs)
  case Nil
  then show ?case by simp
next
  case (Cons a ws)
  obtain p1 c1 where a: "a = (p1, c1)" by (cases a)
  from Cons.prems(1) a obtain v fs1 where
    w: "write_text fs p1 c1 = (Inr v, fs1)" and r: "write_all fs1 ws = (Inr u, fs')"
    by (auto simp: and_then_Inr)
  show ?case
  proof (cases "(p, c) \<in> set ws")
    case True
    from Cons.IH [OF r True] show ?thesis .
  next
    case False
    with Cons.prems(2) a have "p = p1" by simp
    moreover from write_text_post [OF w] obtain q where "resolve fs1 p1 = Inr q" by blast
    moreover from write_all_writes [OF r] obtain Q where "writes Q fs1 fs'" by blast
    ultimately show ?thesis using resolve_mono by blast
  qed
qed

lemma write_all_post:
  assumes "write_all fs ws = (Inr u, fs')"
    and "distinct (map (\<lambda>w. resolve fs' (fst w)) ws)"
  shows "writes {q. \<exists>w\<in>set ws. resolve fs' (fst w) = Inr q} fs fs'
         \<and> (\<forall>w\<in>set ws. \<exists>q. resolve fs' (fst w) = Inr q \<and> nodes fs' q = Some (File (snd w)))"
  using assms
proof (induction ws arbitrary: fs)
  case Nil
  then show ?case by (simp add: writes_refl)
next
  case (Cons a ws)
  obtain p c where a: "a = (p, c)" by (cases a)
  from Cons.prems(1) a obtain v fs1 where
    w: "write_text fs p c = (Inr v, fs1)" and r: "write_all fs1 ws = (Inr u, fs')"
    by (auto simp: and_then_Inr)
  from Cons.prems(2) have d: "distinct (map (\<lambda>w. resolve fs' (fst w)) ws)"
    and n: "resolve fs' p \<notin> (\<lambda>w. resolve fs' (fst w)) ` set ws"
    using a by auto
  let ?Q = "{q. \<exists>w\<in>set ws. resolve fs' (fst w) = Inr q}"
  from Cons.IH [OF r d] have ih1: "writes ?Q fs1 fs'"
    and ih2: "\<forall>w\<in>set ws. \<exists>q. resolve fs' (fst w) = Inr q \<and> nodes fs' q = Some (File (snd w))"
    by blast+
  from write_text_post [OF w] obtain q where
    q: "resolve fs1 p = Inr q" "nodes fs1 q = Some (File c)" "writes {q} fs fs1"
    by blast
  from resolve_mono [OF ih1 q(1)] have q': "resolve fs' p = Inr q" .
  with n have "q \<notin> ?Q" by force
  with ih1 q(2) have c: "nodes fs' q = Some (File c)"
    by (simp add: writes_def)
  have "writes ({q} \<union> ?Q) fs fs'"
    using writes_trans [OF q(3) ih1] .
  moreover have "{q} \<union> ?Q = {q'. \<exists>w\<in>set (a # ws). resolve fs' (fst w) = Inr q'}"
    using q' a by auto
  ultimately show ?case using ih2 q' c a by auto
qed

lemma and_then_assoc:
  "and_then (and_then r k1) k2 = and_then r (\<lambda>fs. and_then (k1 fs) k2)"
  by (cases r) (auto simp: and_then_def split: sum.splits)

lemma and_then_unit: "and_then (Inr u, fs) k = k fs"
  by (simp add: and_then_def)

lemma write_all_append:
  "write_all fs (ws @ ws') = and_then (write_all fs ws) (\<lambda>fs1. write_all fs1 ws')"
  by (induction ws arbitrary: fs) (auto simp: and_then_unit and_then_assoc)

lemma create_project_unfold:
  "create_project source_file output_dir project_name app_name application_id
       compile_sdk min_sdk target_sdk fs0 =
     (let project_root = slash output_dir project_name in
      if path_exists fs0 project_root then (Inl FileExistsError, fs0)
      else
        and_then (write_all fs0 (generated_files project_root project_name app_name
                    application_id compile_sdk min_sdk target_sdk)) (\<lambda>fs.
        (case source_file of
           Some src \<Rightarrow>
             and_then (mkdir_parents fs (parent (main_activity_path project_root application_id)))
               (\<lambda>fs.
             and_then (copy2 fs src (main_activity_path project_root application_id)) (\<lambda>fs.
             (Inr project_root, fs)))
         | None \<Rightarrow>
             and_then (write_text fs (main_activity_path project_root application_id)
                         (main_activity application_id)) (\<lambda>fs.
             (Inr project_root, fs)))))"
  by (simp add: create_project_def generated_files_def Let_def and_then_assoc and_then_unit)

lemma parse_names:
  "parse_path ''settings.gradle.kts'' = Path False [''settings.gradle.kts'']"
  "parse_path ''build.gradle.kts'' = Path False [''build.gradle.kts'']"
  "parse_path ''gradle.properties'' = Path False [''gradle.properties'']"
  "parse_path ''proguard-rules.pro'' = Path False [''proguard-rules.pro'']"
  "parse_path ''AndroidManifest.xml'' = Path False [''AndroidManifest.xml'']"
  "parse_path ''strings.xml'' = Path False [''strings.xml'']"
  "parse_path ''MainActivity.kt'' = Path False [''MainActivity.kt'']"
  "parse_path ''app'' = Path False [''app'']"
  "parse_path ''src'' = Path False [''src'']"
  "parse_path ''main'' = Path False [''main'']"
  "parse_path ''res'' = Path False [''res'']"
  "parse_path ''values'' = Path False [''values'']"
  "parse_path ''java'' = Path False [''java'']"
  by (simp_all add: parse_path_def)

lemma generated_files_paths:
  "map fst (generated_files (Path a R) pn an aid c m t) =
     [Path a (R @ [''settings.gradle.kts'']),
      Path a (R @ [''build.gradle.kts'']),
      Path a (R @ [''gradle.properties'']),
      Path a (R @ [''app'', ''build.gradle.kts'']),
      Path a (R @ [''app'', ''proguard-rules.pro'']),
      Path a (R @ [''app'', ''src'', ''main'', ''AndroidManifest.xml'']),
      Path a (R @ [''app'', ''src'', ''main'', ''res'', ''values'', ''strings.xml''])]"
  by (simp add: generated_files_def slash_def parse_names)

lemma main_activity_path_shape:
  "\<exists>b zs. main_activity_path root aid = Path b (zs @ [''MainActivity.kt''])"
proof -
  obtain a R where r: "root = Path a R" by (cases root)
  obtain b ys where p: "Path_of (split_on CHR ''.'' aid) = Path b ys"
    by (cases "Path_of (split_on CHR ''.'' aid)")
  show ?thesis
    by (cases b) (auto simp: main_activity_path_def r p slash_def parse_names)
qed

lemma resolve_under:
  assumes "resolve fs (Path a (R @ sfx)) = Inr q" "''..'' \<notin> set sfx"
  shows "\<exists>qR. resolve fs (Path a R) = Inr qR \<and> q = qR @ sfx"
  using assms by (auto simp: walk_append split: sum.splits dest: walk_names)

lemma resolve_last:
  assumes "resolve fs (Path a (zs @ [x])) = Inr q" "x \<noteq> ''..''"
  shows "\<exists>q'. q = q' @ [x] \<and> resolve fs (Path a zs) = Inr q' \<and> nodes fs q' = Some Dir"
  using walk_snoc [of "nodes fs" "if a then [] else cwd fs" zs x q] assms by auto

lemma resolve_neq:
  assumes "resolve fs (Path a (R @ s1)) = Inr q1" "''..'' \<notin> set s1" "''..'' \<notin> set s2" "s1 \<noteq> s2"
  shows "resolve fs (Path a (R @ s2)) \<noteq> Inr q1"
proof
  assume b: "resolve fs (Path a (R @ s2)) = Inr q1"
  from resolve_under [OF assms(1,2)] obtain qR where
    1: "resolve fs (Path a R) = Inr qR" "q1 = qR @ s1" by blast
  from resolve_under [OF b assms(3)] obtain qR' where
    2: "resolve fs (Path a R) = Inr qR'" "q1 = qR' @ s2" by blast
  from 1 2 assms(4) show False by simp
qed

lemma resolve_neq_eq:
  assumes "\<exists>q. resolve fs (Path a (R @ s1)) = Inr q" "''..'' \<notin> set s1" "''..'' \<notin> set s2" "s1 \<noteq> s2"
  shows "(resolve fs (Path a (R @ s1)) = resolve fs (Path a (R @ s2))) = False"
  using assms resolve_neq [of fs a R s1 _ s2] by auto

lemma resolve_neq_last:
  assumes "\<exists>q. resolve fs (Path a (R @ s)) = Inr q" "''..'' \<notin> set s" "s \<noteq> []"
    "last s \<noteq> x" "x \<noteq> ''..''"
  shows "(resolve fs (Path b (zs @ [x])) = resolve fs (Path a (R @ s))) = False"
proof -
  from assms(1) obtain q where q: "resolve fs (Path a (R @ s)) = Inr q" by blast
  from resolve_under [OF q assms(2)] obtain qR where "q = qR @ s" by blast
  with assms(3) have l: "last q = last s" by simp
  have "resolve fs (Path b (zs @ [x])) \<noteq> Inr q"
  proof
    assume "resolve fs (Path b (zs @ [x])) = Inr q"
    from resolve_last [OF this assms(5)] obtain q' where "q = q' @ [x]" by blast
    with l assms(4) show False by simp
  qed
  with q show ?thesis by simp
qed

lemma read_file_node:
  "resolve fs p = Inr q \<Longrightarrow> nodes fs q = Some (File d) \<Longrightarrow> read_file fs p = Inr d"
  by (simp add: read_file_def)

lemma generated_distinct:
  assumes "\<forall>w\<in>set (generated_files root pn an aid c m t). \<exists>q. resolve fs (fst w) = Inr q"
  shows "distinct (map (\<lambda>w. resolve fs (fst w)) (generated_files root pn an aid c m t))"
proof -
  obtain a R where r: "root = Path a R" by (cases root)
  let ?ps = "map fst (generated_files (Path a R) pn an aid c m t)"
  from assms r have "\<forall>p\<in>set ?ps. \<exists>q. resolve fs p = Inr q"
    by simp
  then have e:
    "\<exists>q. resolve fs (Path a (R @ [''settings.gradle.kts''])) = Inr q"
    "\<exists>q. resolve fs (Path a (R @ [''build.gradle.kts''])) = Inr q"
    "\<exists>q. resolve fs (Path a (R @ [''gradle.properties''])) = Inr q"
    "\<exists>q. resolve fs (Path a (R @ [''app'', ''build.gradle.kts''])) = Inr q"
    "\<exists>q. resolve fs (Path a (R @ [''app'', ''proguard-rules.pro''])) = Inr q"
    "\<exists>q. resolve fs (Path a (R @ [''app'', ''src'', ''main'', ''AndroidManifest.xml''])) = Inr q"
    "\<exists>q. resolve fs (Path a (R @ [''app'', ''src'', ''main'', ''res'', ''values'', ''strings.xml''])) = Inr q"
    unfolding generated_files_paths by simp_all
  have "distinct (map (resolve fs) ?ps)"
    unfolding generated_files_paths
    by (simp add: resolve_neq_eq e del: resolve.simps)
  then show ?thesis by (simp add: r comp_def)
qed

lemma generated_not_activity:
  assumes "\<forall>w\<in>set (generated_files root pn an aid c m t). \<exists>q. resolve fs (fst w) = Inr q"
  shows "resolve fs (main_activity_path root' aid') \<notin>
           (\<lambda>w. resolve fs (fst w)) ` set (generated_files root pn an aid c m t)"
proof -
  obtain a R where r: "root = Path a R" by (cases root)
  obtain b zs where s: "main_activity_path root' aid' = Path b (zs @ [''MainActivity.kt''])"
    using main_activity_path_shape by blast
  let ?ps = "map fst (generated_files (Path a R) pn an aid c m t)"
  from assms r have "\<forall>p\<in>set ?ps. \<exists>q. resolve fs p = Inr q"
    by simp
  then have e:
    "\<exists>q. resolve fs (Path a (R @ [''settings.gradle.kts''])) = Inr q"
    "\<exists>q. resolve fs (Path a (R @ [''build.gradle.kts''])) = Inr q"
    "\<exists>q. resolve fs (Path a (R @ [''gradle.properties''])) = Inr q"
    "\<exists>q. resolve fs (Path a (R @ [''app'', ''build.gradle.kts''])) = Inr q"
    "\<exists>q. resolve fs (Path a (R @ [''app'', ''proguard-rules.pro''])) = Inr q"
    "\<exists>q. resolve fs (Path a (R @ [''app'', ''src'', ''main'', ''AndroidManifest.xml''])) = Inr q"
    "\<exists>q. resolve fs (Path a (R @ [''app'', ''src'', ''main'', ''res'', ''values'', ''strings.xml''])) = Inr q"
    unfolding generated_files_paths by simp_all
  have "resolve fs (Path b (zs @ [''MainActivity.kt''])) \<notin> set (map (resolve fs) ?ps)"
    unfolding generated_files_paths
    by (simp add: resolve_neq_last e del: resolve.simps)
  then show ?thesis by (simp add: r s image_def comp_def)
qed

lemma write_all_reads:
  assumes "write_all fs ws = (Inr u, fs')"
    and "distinct (map (\<lambda>w. resolve fs' (fst w)) ws)"
    and "w \<in> set ws"
  shows "read_file fs' (fst w) = Inr (snd w)"
  using write_all_post [OF assms(1,2)] assms(3) read_file_node by blast

lemma create_project_root:
  assumes "create_project src out pn an aid c m t fs0 = (Inr root, fs')"
  shows "root = slash out pn \<and> \<not> path_exists fs0 root"
proof -
  have ne: "\<not> path_exists fs0 (slash out pn)"
    using assms by (auto simp: create_project_unfold Let_def)
  with assms show ?thesis
    by (cases src) (auto simp: create_project_unfold Let_def and_then_Inr)
qed

lemma create_project_None:
  assumes "create_project None out pn an aid c m t fs0 = (Inr root, fs')"
  shows "write_all fs0 (generated_files root pn an aid c m t
           @ [(main_activity_path root aid, main_activity aid)]) = (Inr (), fs')"
proof -
  note r = create_project_root [OF assms, THEN conjunct1]
    create_project_root [OF assms, THEN conjunct2]
  from assms r obtain u fs7 v where
    a: "write_all fs0 (generated_files root pn an aid c m t) = (Inr u, fs7)"
    and b: "write_text fs7 (main_activity_path root aid) (main_activity aid) = (Inr v, fs')"
    by (auto simp: create_project_unfold Let_def and_then_Inr)
  then show ?thesis
    by (simp add: write_all_append and_then_def)
qed

lemma create_project_Some:
  assumes "create_project (Some s) out pn an aid c m t fs0 = (Inr root, fs')"
  shows "\<exists>fs7 fs8 u v. write_all fs0 (generated_files root pn an aid c m t) = (Inr (), fs7)
     \<and> mkdir_parents fs7 (parent (main_activity_path root aid)) = (Inr u, fs8)
     \<and> copy2 fs8 s (main_activity_path root aid) = (Inr v, fs')"
proof -
  note r = create_project_root [OF assms, THEN conjunct1]
    create_project_root [OF assms, THEN conjunct2]
  from assms r show ?thesis
    by (auto simp: create_project_unfold Let_def and_then_Inr)
qed

lemma copyfile_post:
  assumes "copyfile fs s d = (Inr u, fs')"
  shows "\<exists>q qs data. resolve fs d = Inr q \<and> resolve fs s = Inr qs \<and> qs \<noteq> q
     \<and> nodes fs qs = Some (File data) \<and> nodes fs q \<noteq> Some Dir
     \<and> fs' = fs\<lparr>nodes := (nodes fs)(q \<mapsto> File data)\<rparr>"
proof -
  from assms have ns: "\<not> samefile fs s d"
    by (auto simp: copyfile_def split: if_splits)
  with assms obtain data where rd: "read_file fs s = Inr data"
    and wr: "write_file fs d data = Inr fs'"
    by (auto simp: copyfile_def split: sum.splits)
  from rd obtain qs where qs: "resolve fs s = Inr qs" "nodes fs qs = Some (File data)"
    by (auto simp: read_file_def split: sum.splits option.splits node.splits)
  from wr obtain q where q: "resolve fs d = Inr q" "nodes fs q \<noteq> Some Dir"
    "fs' = fs\<lparr>nodes := (nodes fs)(q \<mapsto> File data)\<rparr>"
    by (auto simp: write_file_def split: sum.splits if_splits)
  from ns qs q(1) have "qs \<noteq> q"
    by (auto simp: samefile_def)
  with qs q show ?thesis by blast
qed

lemma copyfile_writes:
  assumes "copyfile fs s d = (Inr u, fs')"
  shows "\<exists>q. resolve fs d = Inr q \<and> writes {q} fs fs'"
proof -
  from copyfile_post [OF assms] obtain q data where
    "resolve fs d = Inr q" "nodes fs q \<noteq> Some Dir"
    "fs' = fs\<lparr>nodes := (nodes fs)(q \<mapsto> File data)\<rparr>"
    by blast
  then show ?thesis by (auto simp: writes_def)
qed

lemma copy2_post:
  assumes "copy2 fs s d = (Inr u, fs')" "\<not> is_dir fs' d"
  shows "\<exists>q qs data. resolve fs' d = Inr q \<and> resolve fs' s = Inr qs \<and> resolve fs s = Inr qs
     \<and> qs \<noteq> q \<and> nodes fs qs = Some (File data)
     \<and> nodes fs' qs = Some (File data) \<and> nodes fs' q = Some (File data)
     \<and> writes {q} fs fs'"
proof -
  have nd: "\<not> is_dir fs d"
  proof
    assume i: "is_dir fs d"
    with assms(1) have "copyfile fs s (slash d (basename (str_path s))) = (Inr u, fs')"
      by (simp add: copy2_def)
    from copyfile_writes [OF this] obtain q where "writes {q} fs fs'" by blast
    from is_dir_mono [OF this i] assms(2) show False by simp
  qed
  with assms(1) have c: "copyfile fs s d = (Inr u, fs')"
    by (simp add: copy2_def)
  from copyfile_post [OF c] obtain q qs data where
    p: "resolve fs d = Inr q" "resolve fs s = Inr qs" "qs \<noteq> q"
    "nodes fs qs = Some (File data)" "nodes fs q \<noteq> Some Dir"
    "fs' = fs\<lparr>nodes := (nodes fs)(q \<mapsto> File data)\<rparr>"
    by blast
  from p(5,6) have w: "writes {q} fs fs'"
    by (auto simp: writes_def)
  from resolve_mono [OF w p(1)] resolve_mono [OF w p(2)] p w show ?thesis
    by auto
qed

lemma copy2_writes:
  assumes "copy2 fs s d = (Inr u, fs')"
  shows "\<exists>Q. writes Q fs fs'"
  using assms copyfile_writes unfolding copy2_def by blast

lemma write_all_resolves_all:
  assumes "write_all fs ws = (Inr u, fs')"
  shows "\<forall>w\<in>set ws. \<exists>q. resolve fs' (fst w) = Inr q"
proof
  fix w assume "w \<in> set ws"
  then have "(fst w, snd w) \<in> set ws" by simp
  from write_all_resolves [OF assms this] show "\<exists>q. resolve fs' (fst w) = Inr q" .
qed

lemma is_dir_root:
  assumes "\<forall>w\<in>set (generated_files root pn an aid c m t). \<exists>q. resolve fs (fst w) = Inr q"
  shows "is_dir fs root"
proof -
  obtain a R where r: "root = Path a R" by (cases root)
  from assms r have "\<forall>p\<in>set (map fst (generated_files (Path a R) pn an aid c m t)).
      \<exists>q. resolve fs p = Inr q"
    by simp
  then have "\<exists>q. resolve fs (Path a (R @ [''settings.gradle.kts''])) = Inr q"
    unfolding generated_files_paths by (simp del: resolve.simps)
  then obtain q where "resolve fs (Path a (R @ [''settings.gradle.kts''])) = Inr q"
    by blast
  from resolve_last [OF this] r show ?thesis
    by (auto simp: is_dir_def)
qed

lemma create_project_generated:
  assumes ok: "create_project src out pn an aid c m t fs0 = (Inr root, fs')"
    and nd: "src \<noteq> None \<longrightarrow> \<not> is_dir fs' (main_activity_path root aid)"
    and w: "w \<in> set (generated_files root pn an aid c m t)"
  shows "read_file fs' (fst w) = Inr (snd w)"
proof (cases src)
  case None
  let ?ws = "generated_files root pn an aid c m t @ [(main_activity_path root aid, main_activity aid)]"
  from create_project_None [OF ok [unfolded None]]
  have W: "write_all fs0 ?ws = (Inr (), fs')" .
  from write_all_resolves_all [OF W]
  have res: "\<forall>w\<in>set (generated_files root pn an aid c m t). \<exists>q. resolve fs' (fst w) = Inr q"
    by simp
  have "distinct (map (\<lambda>w. resolve fs' (fst w)) ?ws)"
    using generated_distinct [OF res] generated_not_activity [OF res, of root aid]
    by simp
  from write_all_reads [OF W this, of w] w show ?thesis by simp
next
  case (Some s)
  let ?gen = "generated_files root pn an aid c m t"
  let ?stub = "main_activity_path root aid"
  from create_project_Some [OF ok [unfolded Some]] obtain fs7 fs8 u v where
    W: "write_all fs0 ?gen = (Inr (), fs7)"
    and M: "mkdir_parents fs7 (parent ?stub) = (Inr u, fs8)"
    and C: "copy2 fs8 s ?stub = (Inr v, fs')"
    by blast
  from nd Some have nd': "\<not> is_dir fs' ?stub" by simp
  from write_all_resolves_all [OF W]
  have res7: "\<forall>w\<in>set ?gen. \<exists>q. resolve fs7 (fst w) = Inr q" .
  from write_all_post [OF W generated_distinct [OF res7]] w obtain q where
    q: "resolve fs7 (fst w) = Inr q" "nodes fs7 q = Some (File (snd w))"
    by blast
  from copy2_post [OF C nd'] obtain qd where
    qd: "resolve fs' ?stub = Inr qd" "writes {qd} fs8 fs'"
    by blast
  from writes_trans0 [OF mkdir_parents_writes [OF M] qd(2)]
  have w78: "writes {qd} fs7 fs'" .
  have res': "\<forall>w\<in>set ?gen. \<exists>q. resolve fs' (fst w) = Inr q"
    using res7 resolve_mono [OF w78] by blast
  from resolve_mono [OF w78 q(1)] have q': "resolve fs' (fst w) = Inr q" .
  from generated_not_activity [OF res', of root aid] w have "resolve fs' ?stub \<noteq> resolve fs' (fst w)"
    by auto
  with q' qd(1) have "q \<noteq> qd" by auto
  with w78 q(2) have "nodes fs' q = Some (File (snd w))"
    by (simp add: writes_def)
  with q' show ?thesis by (rule read_file_node)
qed

lemma create_project_stub_generated:
  assumes ok: "create_project None out pn an aid c m t fs0 = (Inr root, fs')"
  shows "read_file fs' (main_activity_path root aid) = Inr (main_activity aid)"
proof -
  let ?ws = "generated_files root pn an aid c m t @ [(main_activity_path root aid, main_activity aid)]"
  from create_project_None [OF ok]
  have W: "write_all fs0 ?ws = (Inr (), fs')" .
  from write_all_resolves_all [OF W]
  have res: "\<forall>w\<in>set (generated_files root pn an aid c m t). \<exists>q. resolve fs' (fst w) = Inr q"
    by simp
  have "distinct (map (\<lambda>w. resolve fs' (fst w)) ?ws)"
    using generated_distinct [OF res] generated_not_activity [OF res, of root aid]
    by simp
  from write_all_reads [OF W this, of "(main_activity_path root aid, main_activity aid)"]
  show ?thesis by simp
qed

lemma create_project_stub_copied:
  assumes ok: "create_project (Some s) out pn an aid c m t fs0 = (Inr root, fs')"
    and nd: "\<not> is_dir fs' (main_activity_path root aid)"
    and src: "read_file fs0 s = Inr data"
    and nf: "\<forall>w\<in>set (generated_files root pn an aid c m t). \<not> samefile fs' (fst w) s"
  shows "read_file fs' (main_activity_path root aid) = Inr data \<and> read_file fs' s = Inr data"
proof -
  let ?gen = "generated_files root pn an aid c m t"
  let ?stub = "main_activity_path root aid"
  from create_project_Some [OF ok] obtain fs7 fs8 u v where
    W: "write_all fs0 ?gen = (Inr (), fs7)"
    and M: "mkdir_parents fs7 (parent ?stub) = (Inr u, fs8)"
    and C: "copy2 fs8 s ?stub = (Inr v, fs')"
    by blast
  from src obtain qs0 where qs0: "resolve fs0 s = Inr qs0" "nodes fs0 qs0 = Some (File data)"
    by (auto simp: read_file_def split: sum.splits option.splits node.splits)
  from write_all_resolves_all [OF W]
  have res7: "\<forall>w\<in>set ?gen. \<exists>q. resolve fs7 (fst w) = Inr q" .
  from write_all_post [OF W generated_distinct [OF res7]]
  have w07: "writes {q. \<exists>w\<in>set ?gen. resolve fs7 (fst w) = Inr q} fs0 fs7"
    by blast
  from copy2_post [OF C nd] obtain qd qs d' where
    qd: "resolve fs' ?stub = Inr qd" "resolve fs' s = Inr qs" "resolve fs8 s = Inr qs"
      "nodes fs8 qs = Some (File d')" "nodes fs' qs = Some (File d')"
      "nodes fs' qd = Some (File d')" "writes {qd} fs8 fs'"
    by blast
  note w78 = mkdir_parents_writes [OF M]
  from writes_trans0 [OF w78 qd(7)] have w7': "writes {qd} fs7 fs'" .
  from resolve_mono [OF w07 qs0(1)] have s7: "resolve fs7 s = Inr qs0" .
  from resolve_mono [OF w78 s7] qd(3) have same: "qs = qs0" by simp
  have "qs0 \<notin> {q. \<exists>w\<in>set ?gen. resolve fs7 (fst w) = Inr q}"
  proof
    assume "qs0 \<in> {q. \<exists>w\<in>set ?gen. resolve fs7 (fst w) = Inr q}"
    then obtain w where w: "w \<in> set ?gen" "resolve fs7 (fst w) = Inr qs0" by blast
    from resolve_mono [OF w7' w(2)] qd(2,5) same have "samefile fs' (fst w) s"
      by (simp add: samefile_def)
    with nf w(1) show False by blast
  qed
  with w07 qs0(2) have "nodes fs7 qs0 = Some (File data)"
    by (simp add: writes_def)
  with w78 have "nodes fs8 qs0 = Some (File data)"
    by (simp add: writes_def)
  with qd(4) same have "d' = data" by simp
  with qd show ?thesis
    by (simp add: read_file_node)
qed

lemma create_project_makes_root:
  assumes ok: "create_project src out pn an aid c m t fs0 = (Inr root, fs')"
  shows "is_dir fs' root"
proof (cases src)
  case None
  from create_project_None [OF ok [unfolded None]] write_all_resolves_all
  have "\<forall>w\<in>set (generated_files root pn an aid c m t). \<exists>q. resolve fs' (fst w) = Inr q"
    by fastforce
  then show ?thesis by (rule is_dir_root)
next
  case (Some s)
  let ?gen = "generated_files root pn an aid c m t"
  let ?stub = "main_activity_path root aid"
  from create_project_Some [OF ok [unfolded Some]] obtain fs7 fs8 u v where
    W: "write_all fs0 ?gen = (Inr (), fs7)"
    and M: "mkdir_parents fs7 (parent ?stub) = (Inr u, fs8)"
    and C: "copy2 fs8 s ?stub = (Inr v, fs')"
    by blast
  from write_all_resolves_all [OF W] have "is_dir fs7 root" by (rule is_dir_root)
  from is_dir_mono [OF mkdir_parents_writes [OF M] this] have "is_dir fs8 root" .
  with copy2_writes [OF C] is_dir_mono show ?thesis by blast
qed

section \<open>A project made on an empty file system\<close>

lemmas fs_eval =
  mkdir_parents.simps mkdir_exist_ok_def os_mkdir_def and_then_def is_dir_def
  path_exists_def write_text_def write_file_def read_file_def slash_def parse_path_def
  main_activity_path_def Path_of_def copy2_def copyfile_def samefile_def

lemma create_project_Foo:
  "create_project None (Path False [''dist'']) ''Foo'' ''Foo App'' ''com.example.app'' 34 24 34
     fs_empty = (Inr (Path False [''dist'', ''Foo'']), project_Foo)"
  by (simp add: create_project_def fs_empty_def project_Foo_def fs_eval)

section \<open>The project root and the source file\<close>

lemma is_dir_exists: "is_dir fs p \<Longrightarrow> path_exists fs p"
  by (auto simp: is_dir_def path_exists_def split: sum.splits)

text \<open>
  C1.  When the project root (the output directory joined with the project name) exists,
  as a file or as a directory, \<open>create_project\<close> raises \<open>FileExistsError\<close> and the file
  system is what it was.  After a call that returned, the root exists, so the same call
  again raises \<open>FileExistsError\<close> and leaves every file of the first call as it is.  In
  \<open>main\<close>, where the name is the sanitized \<open>--project\<close>, the exit code is 3.
\<close>

theorem create_project_refuses_existing_root:
  "(path_exists fs (slash output_dir project_name) \<longrightarrow>
      create_project source_file output_dir project_name app_name application_id
        compile_sdk min_sdk target_sdk fs = (Inl FileExistsError, fs))
   \<and> (create_project source_file output_dir project_name app_name application_id
        compile_sdk min_sdk target_sdk fs = (Inr project_root, fs') \<longrightarrow>
      project_root = slash output_dir project_name
      \<and> \<not> path_exists fs project_root \<and> path_exists fs' project_root
      \<and> create_project source_file output_dir project_name app_name application_id
        compile_sdk min_sdk target_sdk fs' = (Inl FileExistsError, fs'))
   \<and> (arg_source a = None
        \<and> path_exists (files w)
             (slash (arg_out a) (safe_name (arg_project a) ''AiGeneratedAndroidApp'')) \<longrightarrow>
      main E a w = (Inr 3, print (Error_exc FileExistsError) w))"
proof -
  have 1: "path_exists g (slash output_dir project_name) \<Longrightarrow>
      create_project source_file output_dir project_name app_name application_id
        compile_sdk min_sdk target_sdk g = (Inl FileExistsError, g)" for g
    by (simp add: create_project_def)
  have 2: "project_root = slash output_dir project_name
      \<and> \<not> path_exists fs project_root \<and> path_exists fs' project_root
      \<and> create_project source_file output_dir project_name app_name application_id
        compile_sdk min_sdk target_sdk fs' = (Inl FileExistsError, fs')"
    if ok: "create_project source_file output_dir project_name app_name application_id
        compile_sdk min_sdk target_sdk fs = (Inr project_root, fs')"
  proof -
    note r1 = create_project_root [OF ok, THEN conjunct1]
    note r2 = create_project_root [OF ok, THEN conjunct2]
    from create_project_makes_root [OF ok] have e: "path_exists fs' project_root"
      by (rule is_dir_exists)
    from e r1 have "path_exists fs' (slash output_dir project_name)" by simp
    from 1 [OF this] r1 r2 e show ?thesis by blast
  qed
  have 3: "main E a w = (Inr 3, print (Error_exc FileExistsError) w)"
    if "arg_source a = None" and "path_exists (files w)
             (slash (arg_out a) (safe_name (arg_project a) ''AiGeneratedAndroidApp''))"
    using that by (simp add: main_def create_project_def)
  from 1 [of fs] 2 3 show ?thesis by blast
qed

theorem create_project_refuses_existing_root_witness:
  "create_project None (Path False [''dist'']) ''Foo'' ''Foo App'' ''com.example.app'' 34 24 34
     fs_empty = (Inr (Path False [''dist'', ''Foo'']), project_Foo)
   \<and> \<not> path_exists fs_empty (Path False [''dist'', ''Foo''])
   \<and> path_exists project_Foo (Path False [''dist'', ''Foo''])
   \<and> create_project None (Path False [''dist'']) ''Foo'' ''Foo App'' ''com.example.app'' 34 24 34
     project_Foo = (Inl FileExistsError, project_Foo)
   \<and> main host_without_gradle
       \<lparr>arg_source = None, arg_out = Path False [''dist''], arg_project = ''Foo'',
        arg_app_name = ''Foo App'', arg_application_id = ''com.example.app'',
        arg_compile_sdk = 34, arg_min_sdk = 24, arg_target_sdk = 34,
        arg_build = False, arg_offline = False\<rparr>
       (fresh_world\<lparr>files := project_Foo\<rparr>)
     = (Inr 3, print (Error_exc FileExistsError) (fresh_world\<lparr>files := project_Foo\<rparr>))"
proof -
  note t = create_project_refuses_existing_root [where source_file = None
      and output_dir = "Path False [''dist'']" and project_name = "''Foo''"
      and app_name = "''Foo App''" and application_id = "''com.example.app''"
      and compile_sdk = 34 and min_sdk = 24 and target_sdk = 34 and fs = fs_empty
      and project_root = "Path False [''dist'', ''Foo'']" and fs' = project_Foo
      and E = host_without_gradle
      and w = "fresh_world\<lparr>files := project_Foo\<rparr>"
      and a = "\<lparr>arg_source = None, arg_out = Path False [''dist''], arg_project = ''Foo'',
        arg_app_name = ''Foo App'', arg_application_id = ''com.example.app'',
        arg_compile_sdk = 34, arg_min_sdk = 24, arg_target_sdk = 34,
        arg_build = False, arg_offline = False\<rparr>"]
  have s: "slash (Path False [''dist'']) ''Foo'' = Path False [''dist'', ''Foo'']"
    by (simp add: slash_def parse_path_def)
  have n: "safe_name ''Foo'' ''AiGeneratedAndroidApp'' = ''Foo''"
    by (simp add: safe_name_def strip_def lstrip.simps rstrip.simps space_prefix_def
      space_suffix_def whitespace_def re_sub_delete_def name_char_def suffix_to_prefix)
  have e: "path_exists project_Foo (Path False [''dist'', ''Foo''])"
    by (simp add: path_exists_def project_Foo_def)
  from t create_project_Foo s n e show ?thesis
    by simp
qed



section \<open>The application id in the rendered files and in the source path\<close>

lemma id_in_build_plain:
  assumes "\<not> sublist ''__COMPILE_SDK__'' application_id"
    "\<not> sublist ''__MIN_SDK__'' application_id"
    "\<not> sublist ''__TARGET_SDK__'' application_id"
  shows "id_in_build application_id compile_sdk min_sdk target_sdk = application_id"
  using assms by (simp add: id_in_build_def replace_absent)

lemma app_build_gradle_generated:
  \<open>(slash (slash project_root ''app'') ''build.gradle.kts'',
      app_build_gradle application_id compile_sdk min_sdk target_sdk)
    \<in> set (generated_files project_root project_name app_name application_id
              compile_sdk min_sdk target_sdk)\<close>
  by (simp add: generated_files_def)

lemma main_activity_path_example:
  "main_activity_path (Path a R) ''com.example.app'' =
     Path a (R @ [''app'', ''src'', ''main'', ''java'', ''com'', ''example'', ''app'',
                  ''MainActivity.kt''])"
  by (simp add: main_activity_path_def Path_of_def slash_def parse_path_def)

text \<open>
  Let \<open>create_project\<close>, called without a source file, return.  When none of
  \<open>__COMPILE_SDK__\<close>, \<open>__MIN_SDK__\<close>, \<open>__TARGET_SDK__\<close> occurs in the application id, the
  app module's build file is its template with the application id at \<open>namespace\<close> and at
  \<open>applicationId\<close> (and the three versions at their fields), and the activity's source is
  its template with the same application id as the package: every occurrence of the
  placeholder, in both templates, has become the application id of the call.  For
  \<open>com.example.app\<close> the source is the file \<open>MainActivity.kt\<close> in
  \<open>app/src/main/java/com/example/app\<close> under the project root.
\<close>

lemma application_id_consistent:
  assumes "create_project None output_dir project_name app_name application_id
             compile_sdk min_sdk target_sdk fs = (Inr project_root, fs')"
    and "\<not> sublist ''__COMPILE_SDK__'' application_id"
    and "\<not> sublist ''__MIN_SDK__'' application_id"
    and "\<not> sublist ''__TARGET_SDK__'' application_id"
  shows
   \<open>read_file fs' (slash (slash project_root ''app'') ''build.gradle.kts'') =
      Inr (build_head @ ''"'' @ application_id
        @ ''"\<newline>    compileSdk = '' @ str_int compile_sdk
        @ ''\<newline>\<newline>    defaultConfig {\<newline>        applicationId = "''
        @ application_id
        @ ''"\<newline>        minSdk = '' @ str_int min_sdk
        @ ''\<newline>        targetSdk = '' @ str_int target_sdk
        @ ''\<newline>'' @ build_tail)
    \<and> read_file fs' (main_activity_path project_root application_id) =
      Inr (''package '' @ application_id @ ''\<newline>'' @ activity_tail)
    \<and> APP_BUILD_GRADLE =
      build_head @ ''"__APPLICATION_ID__"\<newline>    compileSdk = __COMPILE_SDK__\<newline>\<newline>    defaultConfig {\<newline>        applicationId = "__APPLICATION_ID__"\<newline>        minSdk = __MIN_SDK__\<newline>        targetSdk = __TARGET_SDK__\<newline>'' @ build_tail
    \<and> MAIN_ACTIVITY_TEMPLATE = ''package __APPLICATION_ID__\<newline>'' @ activity_tail
    \<and> main_activity_path (Path a R) ''com.example.app'' =
      Path a (R @ [''app'', ''src'', ''main'', ''java'', ''com'', ''example'', ''app'',
                   ''MainActivity.kt''])\<close>
proof -
  have n: "None \<noteq> None \<longrightarrow> \<not> is_dir fs' (main_activity_path project_root application_id)"
    by simp
  from create_project_generated [OF assms(1) n app_build_gradle_generated]
  have "read_file fs' (slash (slash project_root ''app'') ''build.gradle.kts'') =
      Inr (app_build_gradle application_id compile_sdk min_sdk target_sdk)"
    by simp
  then have 1: \<open>read_file fs' (slash (slash project_root ''app'') ''build.gradle.kts'') =
      Inr (build_head @ ''"'' @ application_id
        @ ''"\<newline>    compileSdk = '' @ str_int compile_sdk
        @ ''\<newline>\<newline>    defaultConfig {\<newline>        applicationId = "''
        @ application_id
        @ ''"\<newline>        minSdk = '' @ str_int min_sdk
        @ ''\<newline>        targetSdk = '' @ str_int target_sdk
        @ ''\<newline>'' @ build_tail)\<close>
    by (simp only: app_build_gradle_render id_in_build_plain [OF assms(2-4)])
  from create_project_stub_generated [OF assms(1)]
  have 2: "read_file fs' (main_activity_path project_root application_id) =
      Inr (''package '' @ application_id @ ''\<newline>'' @ activity_tail)"
    by (simp only: main_activity_render)
  from 1 2 APP_BUILD_GRADLE_split MAIN_ACTIVITY_split main_activity_path_example
  show ?thesis by blast
qed

lemma application_id_consistent_witness:
  \<open>read_file project_Foo (Path False [''dist'', ''Foo'', ''app'', ''build.gradle.kts'']) =
      Inr (build_head @ ''"com.example.app"\<newline>    compileSdk = 34\<newline>\<newline>    defaultConfig {\<newline>        applicationId = "com.example.app"\<newline>        minSdk = 24\<newline>        targetSdk = 34\<newline>'' @ build_tail)
    \<and> read_file project_Foo
        (Path False [''dist'', ''Foo'', ''app'', ''src'', ''main'', ''java'', ''com'',
           ''example'', ''app'', ''MainActivity.kt'']) =
      Inr (''package com.example.app\<newline>'' @ activity_tail)\<close>
proof -
  have s: "\<not> sublist ''__COMPILE_SDK__'' ''com.example.app''"
    "\<not> sublist ''__MIN_SDK__'' ''com.example.app''"
    "\<not> sublist ''__TARGET_SDK__'' ''com.example.app''"
    by (simp_all add: sublist_Cons_right)
  note t = application_id_consistent [OF create_project_Foo s, of False "[''dist'', ''Foo'']"]
  have p: "slash (slash (Path False [''dist'', ''Foo'']) ''app'') ''build.gradle.kts'' =
      Path False [''dist'', ''Foo'', ''app'', ''build.gradle.kts'']"
    by (simp add: slash_def parse_path_def)
  from t [THEN conjunct1] t [THEN conjunct2, THEN conjunct1] p
    main_activity_path_example [of False "[''dist'', ''Foo'']"]
  show ?thesis by (simp add: str_34)
qed

text \<open>
  C2.  The application id does not resolve to the same string everywhere when a later
  placeholder occurs in it.  The build file's four replacements run one after the other,
  each over the whole text, the application id just inserted included; the activity's
  source has one replacement, and the path of the activity's source none.  With the
  application id \<open>a__MIN_SDK__\<close> and the versions 34, 24 and 34, the build file has
  \<open>a24\<close> at \<open>namespace\<close> and at \<open>applicationId\<close>, where the activity's source has the
  package \<open>a__MIN_SDK__\<close> and is in the directory \<open>a__MIN_SDK__\<close>.
\<close>

theorem application_id_rewritten:
  \<open>app_build_gradle ''a__MIN_SDK__'' 34 24 34 =
      build_head @ ''"a24"\<newline>    compileSdk = 34\<newline>\<newline>    defaultConfig {\<newline>        applicationId = "a24"\<newline>        minSdk = 24\<newline>        targetSdk = 34\<newline>'' @ build_tail
    \<and> main_activity ''a__MIN_SDK__'' = ''package a__MIN_SDK__\<newline>'' @ activity_tail
    \<and> main_activity_path (Path False [''dist'', ''Foo'']) ''a__MIN_SDK__'' =
      Path False [''dist'', ''Foo'', ''app'', ''src'', ''main'', ''java'', ''a__MIN_SDK__'',
        ''MainActivity.kt'']\<close>
proof -
  have x: "id_in_build ''a__MIN_SDK__'' 34 24 34 = ''a24''"
    by (simp add: id_in_build_def replace_Cons replace_Nil str_34)
  have p: "main_activity_path (Path False [''dist'', ''Foo'']) ''a__MIN_SDK__'' =
      Path False [''dist'', ''Foo'', ''app'', ''src'', ''main'', ''java'', ''a__MIN_SDK__'',
        ''MainActivity.kt'']"
    by (simp add: main_activity_path_def Path_of_def slash_def parse_path_def)
  show ?thesis
    by (simp add: app_build_gradle_render main_activity_render x str_34 p)
qed

lemma slash_empty: "slash p [] = p"
  by (cases p) (simp add: slash_def parse_path_def)

lemma foldl_slash_filter:
  "foldl slash p (filter (\<lambda>s. s \<noteq> []) segments) = foldl slash p segments"
  by (induction segments arbitrary: p) (simp_all add: slash_empty)

text \<open>
  C5 (amended).  The application id is not validated, and its empty segments never
  reach the file system: \<open>Path(*segments)\<close> drops them, so the path of the activity's
  source is the path for the segments that are not empty (for \<open>com..app\<close> it is the path
  for \<open>com.app\<close>, in \<open>com/app\<close>).  Whenever \<open>create_project\<close>, called without a source
  file, returns, the source was written at that path, with the application id as given
  in its package line.
\<close>

theorem empty_segments_dropped:
  \<open>Path_of segments = Path_of (filter (\<lambda>s. s \<noteq> []) segments)
   \<and> main_activity_path project_root application_id =
       slash
         (joinpath
            (slash (slash (slash (slash project_root ''app'') ''src'') ''main'') ''java'')
            (Path_of (filter (\<lambda>s. s \<noteq> []) (split_on CHR ''.'' application_id))))
         ''MainActivity.kt''
   \<and> split_on CHR ''.'' ''com..app'' = [''com'', '''', ''app'']
   \<and> main_activity_path (Path a R) ''com..app'' =
       Path a (R @ [''app'', ''src'', ''main'', ''java'', ''com'', ''app'', ''MainActivity.kt''])
   \<and> main_activity_path (Path a R) ''com.app'' =
       Path a (R @ [''app'', ''src'', ''main'', ''java'', ''com'', ''app'', ''MainActivity.kt''])
   \<and> (create_project None output_dir project_name app_name application_id
          compile_sdk min_sdk target_sdk fs = (Inr project_root, fs') \<longrightarrow>
        read_file fs' (main_activity_path project_root application_id) =
          Inr (''package '' @ application_id @ ''\<newline>'' @ activity_tail))\<close>
proof -
  have 1: "Path_of segments = Path_of (filter (\<lambda>s. s \<noteq> []) segments)" for segments
    by (simp add: Path_of_def foldl_slash_filter)
  have 2: "main_activity_path project_root application_id =
       slash
         (joinpath
            (slash (slash (slash (slash project_root ''app'') ''src'') ''main'') ''java'')
            (Path_of (filter (\<lambda>s. s \<noteq> []) (split_on CHR ''.'' application_id))))
         ''MainActivity.kt''"
    unfolding main_activity_path_def using 1 [of "split_on CHR ''.'' application_id"] by simp
  have 3: "split_on CHR ''.'' ''com..app'' = [''com'', '''', ''app'']"
    by simp
  have 4: "main_activity_path (Path a R) ''com..app'' =
       Path a (R @ [''app'', ''src'', ''main'', ''java'', ''com'', ''app'', ''MainActivity.kt''])"
    by (simp add: main_activity_path_def Path_of_def slash_def parse_path_def)
  have 5: "main_activity_path (Path a R) ''com.app'' =
       Path a (R @ [''app'', ''src'', ''main'', ''java'', ''com'', ''app'', ''MainActivity.kt''])"
    by (simp add: main_activity_path_def Path_of_def slash_def parse_path_def)
  have 6: "read_file fs' (main_activity_path project_root application_id) =
          Inr (''package '' @ application_id @ ''\<newline>'' @ activity_tail)"
    if "create_project None output_dir project_name app_name application_id
          compile_sdk min_sdk target_sdk fs = (Inr project_root, fs')"
    using create_project_stub_generated [OF that] by (simp only: main_activity_render)
  from 1 [of segments] 2 3 4 5 6 show ?thesis by blast
qed

lemma create_project_collapsed:
  "create_project None (Path False [''dist'']) ''Foo'' ''Foo App'' ''com..app'' 34 24 34
     fs_empty = (Inr (Path False [''dist'', ''Foo'']), project_collapsed)"
  by (simp add: create_project_def fs_empty_def project_collapsed_def fs_eval)

text \<open>
  C5 as stated fails: with the application id \<open>com..app\<close> on a file system that has only
  the root directory, \<open>create_project\<close> returns, no error is raised, and the activity's
  source is in \<open>com/app\<close>.
\<close>

theorem empty_segment_counterexample:
  "create_project None (Path False [''dist'']) ''Foo'' ''Foo App'' ''com..app'' 34 24 34
     fs_empty = (Inr (Path False [''dist'', ''Foo'']), project_collapsed)
   \<and> read_file project_collapsed
        (Path False [''dist'', ''Foo'', ''app'', ''src'', ''main'', ''java'', ''com'', ''app'',
           ''MainActivity.kt'']) = Inr (main_activity ''com..app'')"
proof -
  have "read_file project_collapsed
        (Path False [''dist'', ''Foo'', ''app'', ''src'', ''main'', ''java'', ''com'', ''app'',
           ''MainActivity.kt'']) = Inr (main_activity ''com..app'')"
    by (simp add: project_collapsed_def read_file_def)
  with create_project_collapsed show ?thesis by simp
qed

theorem empty_segments_dropped_witness:
  \<open>Path_of [''com'', '''', ''app''] = Path_of [''com'', ''app'']
   \<and> read_file project_collapsed
        (Path False [''dist'', ''Foo'', ''app'', ''src'', ''main'', ''java'', ''com'', ''app'',
           ''MainActivity.kt'']) = Inr (''package com..app\<newline>'' @ activity_tail)\<close>
proof -
  note t = empty_segments_dropped [where segments = "[''com'', '''', ''app'']"
      and application_id = "''com..app''" and a = False and R = "[''dist'', ''Foo'']"
      and output_dir = "Path False [''dist'']" and project_name = "''Foo''"
      and app_name = "''Foo App''" and compile_sdk = 34 and min_sdk = 24 and target_sdk = 34
      and fs = fs_empty and fs' = project_collapsed
      and project_root = "Path False [''dist'', ''Foo'']"]
  note c = create_project_collapsed
  have 1: "Path_of [''com'', '''', ''app''] = Path_of [''com'', ''app'']"
    using t [THEN conjunct1] by simp
  have p: "main_activity_path (Path False [''dist'', ''Foo'']) ''com..app'' =
      Path False [''dist'', ''Foo'', ''app'', ''src'', ''main'', ''java'', ''com'', ''app'',
           ''MainActivity.kt'']"
    using t [THEN conjunct2, THEN conjunct2, THEN conjunct2, THEN conjunct1] by simp
  from t [THEN conjunct2, THEN conjunct2, THEN conjunct2, THEN conjunct2, THEN conjunct2] c
  have "read_file project_collapsed
      (main_activity_path (Path False [''dist'', ''Foo'']) ''com..app'') =
        Inr (''package com..app\<newline>'' @ activity_tail)"
    by simp
  with 1 p show ?thesis by simp
qed

section \<open>A caller's source file, and two calls with the same arguments\<close>

lemma create_project_copied:
  "create_project (Some (Path False [''Main.kt''])) (Path False [''dist'']) ''Foo'' ''Foo App''
     ''com.example.app'' 34 24 34 fs_with_source
   = (Inr (Path False [''dist'', ''Foo'']), project_copied)"
  by (simp add: create_project_def fs_with_source_def project_copied_def fs_eval)

lemma create_project_beside:
  "create_project None (Path False [''dist'']) ''Foo'' ''Foo App''
     ''com.example.app'' 34 24 34 fs_with_source
   = (Inr (Path False [''dist'', ''Foo'']), project_beside)"
  by (simp add: create_project_def fs_with_source_def project_beside_def fs_eval)


lemma create_project_into_dir:
  "create_project (Some (Path False [''Main.kt''])) (Path False [''dist'']) ''Foo'' ''Foo App''
     ''/pre'' 34 24 34 fs_pre_dir
   = (Inr (Path False [''dist'', ''Foo'']), project_into_dir)"
  by (simp add: create_project_def fs_pre_dir_def project_into_dir_def fs_eval basename_def)


lemma create_project_aliased:
  "create_project (Some (Path False [''Foo'', ''settings.gradle.kts'']))
     (Path False [''dist'', ''..'']) ''Foo'' ''Foo App'' ''com.example.app'' 34 24 34 fs_aliased
   = (Inr (Path False [''dist'', ''..'', ''Foo'']), project_aliased)"
  by (simp add: create_project_def fs_aliased_def project_aliased_def fs_eval)

lemma main_activity_path_pre:
  "main_activity_path (Path a R) ''/pre'' = Path True [''pre'', ''MainActivity.kt'']"
  by (simp add: main_activity_path_def Path_of_def slash_def parse_path_def)

lemma settings_gradle_first: "hd (settings_gradle project_name) = CHR ''p''"
proof -
  have "\<not> prefix ''__PROJECT_NAME__'' (CHR ''p'' # cs)" for cs
    by simp
  then show ?thesis
    by (simp add: settings_gradle_def SETTINGS_GRADLE_def text_lines_def replace_Cons_no)
qed


text \<open>
  C6 (amended).  Let \<open>create_project\<close> return.  Called without a source file, it has
  written the rendered template of the activity at the path of the activity's source.
  Called with a source file that held the bytes \<open>data\<close> before the call, it has left
  these very bytes at that path, and the source file still holds them; no template is
  rendered there.  This is so provided that the path of the activity's source is not a
  directory (\<open>copy2\<close> copies into a directory) and that the source file is none of the
  seven files the call generates (the call writes these before it copies).
\<close>

theorem source_copied_verbatim:
  assumes "create_project source_file output_dir project_name app_name application_id
             compile_sdk min_sdk target_sdk fs = (Inr project_root, fs')"
  shows
   "(source_file = None \<longrightarrow>
       read_file fs' (main_activity_path project_root application_id) =
         Inr (main_activity application_id))
    \<and> (source_file = Some src \<and> read_file fs src = Inr data
        \<and> \<not> is_dir fs' (main_activity_path project_root application_id)
        \<and> (\<forall>w\<in>set (generated_files project_root project_name app_name application_id
                        compile_sdk min_sdk target_sdk). \<not> samefile fs' (fst w) src) \<longrightarrow>
       read_file fs' (main_activity_path project_root application_id) = Inr data
       \<and> read_file fs' src = Inr data)"
proof (intro conjI impI)
  assume "source_file = None"
  with assms show "read_file fs' (main_activity_path project_root application_id) =
         Inr (main_activity application_id)"
    by (simp add: create_project_stub_generated)
next
  assume a: "source_file = Some src \<and> read_file fs src = Inr data
        \<and> \<not> is_dir fs' (main_activity_path project_root application_id)
        \<and> (\<forall>w\<in>set (generated_files project_root project_name app_name application_id
                        compile_sdk min_sdk target_sdk). \<not> samefile fs' (fst w) src)"
  then have ok: "create_project (Some src) output_dir project_name app_name application_id
             compile_sdk min_sdk target_sdk fs = (Inr project_root, fs')"
    using assms by simp
  from a have h: "\<not> is_dir fs' (main_activity_path project_root application_id)"
    "read_file fs src = Inr data"
    "\<forall>w\<in>set (generated_files project_root project_name app_name application_id
                        compile_sdk min_sdk target_sdk). \<not> samefile fs' (fst w) src"
    by blast+
  note r = create_project_stub_copied [OF ok h]
  from r show "read_file fs' (main_activity_path project_root application_id) = Inr data"
    by blast
  from r show "read_file fs' src = Inr data"
    by blast
qed

theorem source_copied_verbatim_witness:
  "read_file fs_with_source (Path False [''Main.kt'']) = Inr ''class {''
   \<and> read_file project_copied
       (Path False [''dist'', ''Foo'', ''app'', ''src'', ''main'', ''java'', ''com'',
          ''example'', ''app'', ''MainActivity.kt'']) = Inr ''class {''
   \<and> read_file project_copied (Path False [''Main.kt'']) = Inr ''class {''
   \<and> read_file project_beside
       (Path False [''dist'', ''Foo'', ''app'', ''src'', ''main'', ''java'', ''com'',
          ''example'', ''app'', ''MainActivity.kt'']) = Inr (main_activity ''com.example.app'')"
proof -
  let ?stub = "Path False [''dist'', ''Foo'', ''app'', ''src'', ''main'', ''java'', ''com'',
          ''example'', ''app'', ''MainActivity.kt'']"
  have p: "main_activity_path (Path False [''dist'', ''Foo'']) ''com.example.app'' = ?stub"
    using main_activity_path_example [of False "[''dist'', ''Foo'']"] by simp
  have s: "read_file fs_with_source (Path False [''Main.kt'']) = Inr ''class {''"
    by (simp add: read_file_def fs_with_source_def)
  have d: "\<not> is_dir project_copied ?stub"
    by (simp add: is_dir_def project_copied_def)
  have g: "\<forall>w\<in>set (generated_files (Path False [''dist'', ''Foo'']) ''Foo'' ''Foo App''
        ''com.example.app'' 34 24 34). \<not> samefile project_copied (fst w) (Path False [''Main.kt''])"
    by (simp add: generated_files_def slash_def parse_names samefile_def project_copied_def)
  from source_copied_verbatim [OF create_project_copied, of "Path False [''Main.kt'']" "''class {''"]
    s d g p
  have 1: "read_file project_copied ?stub = Inr ''class {''
      \<and> read_file project_copied (Path False [''Main.kt'']) = Inr ''class {''"
    by simp
  from source_copied_verbatim [OF create_project_beside] p
  have 2: "read_file project_beside ?stub = Inr (main_activity ''com.example.app'')"
    by simp
  from s 1 2 show ?thesis by simp
qed

text \<open>
  C6 as stated fails where one of the two provisos does not hold.  With the application
  id \<open>/pre\<close> the path of the activity's source is \<open>/pre/MainActivity.kt\<close>; on
  \<open>fs_pre_dir\<close> that is a directory, \<open>create_project\<close> returns, and the bytes of the source
  file are in \<open>/pre/MainActivity.kt/Main.kt\<close>, while at the computed path there is still
  the directory.  With the output directory \<open>dist/..\<close> on \<open>fs_aliased\<close>, where there is no
  \<open>dist\<close>, the root \<open>dist/../Foo\<close> does not exist when it is tested; the call makes
  \<open>dist\<close>, writes its settings file over the source file \<open>Foo/settings.gradle.kts\<close> and
  then copies that text, so the activity's source has the generated settings and not the
  bytes the source file held.
\<close>

theorem source_copy_counterexample:
  "create_project (Some (Path False [''Main.kt''])) (Path False [''dist'']) ''Foo'' ''Foo App''
     ''/pre'' 34 24 34 fs_pre_dir
   = (Inr (Path False [''dist'', ''Foo'']), project_into_dir)
   \<and> main_activity_path (Path False [''dist'', ''Foo'']) ''/pre'' =
       Path True [''pre'', ''MainActivity.kt'']
   \<and> read_file fs_pre_dir (Path False [''Main.kt'']) = Inr ''class {''
   \<and> read_file project_into_dir (Path True [''pre'', ''MainActivity.kt'']) =
       Inl IsADirectoryError
   \<and> read_file project_into_dir (Path True [''pre'', ''MainActivity.kt'', ''Main.kt'']) =
       Inr ''class {''
   \<and> create_project (Some (Path False [''Foo'', ''settings.gradle.kts'']))
       (Path False [''dist'', ''..'']) ''Foo'' ''Foo App'' ''com.example.app'' 34 24 34 fs_aliased
     = (Inr (Path False [''dist'', ''..'', ''Foo'']), project_aliased)
   \<and> read_file fs_aliased (Path False [''Foo'', ''settings.gradle.kts'']) = Inr ''// mine''
   \<and> read_file project_aliased
       (main_activity_path (Path False [''dist'', ''..'', ''Foo'']) ''com.example.app'') =
       Inr (settings_gradle ''Foo'')
   \<and> settings_gradle ''Foo'' \<noteq> ''// mine''"
proof -
  have 1: "read_file fs_pre_dir (Path False [''Main.kt'']) = Inr ''class {''"
    by (simp add: read_file_def fs_pre_dir_def)
  have 2: "read_file project_into_dir (Path True [''pre'', ''MainActivity.kt'']) =
       Inl IsADirectoryError"
    by (simp add: read_file_def project_into_dir_def)
  have 3: "read_file project_into_dir (Path True [''pre'', ''MainActivity.kt'', ''Main.kt'']) =
       Inr ''class {''"
    by (simp add: read_file_def project_into_dir_def)
  have 4: "read_file fs_aliased (Path False [''Foo'', ''settings.gradle.kts'']) = Inr ''// mine''"
    by (simp add: read_file_def fs_aliased_def)
  have 5: "read_file project_aliased
       (main_activity_path (Path False [''dist'', ''..'', ''Foo'']) ''com.example.app'') =
       Inr (settings_gradle ''Foo'')"
    by (simp add: main_activity_path_example read_file_def project_aliased_def)
  have 6: "settings_gradle ''Foo'' \<noteq> ''// mine''"
    using settings_gradle_first [of "''Foo''"] by auto
  from create_project_into_dir main_activity_path_pre [of False "[''dist'', ''Foo'']"]
    1 2 3 create_project_aliased 4 5 6
  show ?thesis by simp
qed




section \<open>The build\<close>

lemma safe_name_Foo: "safe_name ''Foo'' ''AiGeneratedAndroidApp'' = ''Foo''"
  by (simp add: safe_name_filter name_char_def)

lemma main_build:
  assumes "arg_source a = None" "arg_build a"
    and "create_project None (arg_out a) (safe_name (arg_project a) ''AiGeneratedAndroidApp'')
           (arg_app_name a) (arg_application_id a) (arg_compile_sdk a) (arg_min_sdk a)
           (arg_target_sdk a) (files v) = (Inr project_root, fs1)"
  shows "main E a v =
     (case run_gradle_build E project_root (arg_offline a)
             (print Ok_apk_hint (print (Ok_project project_root) (v\<lparr>files := fs1\<rparr>))) of
        (Inr u, w2) \<Rightarrow> (Inr 0, print Ok_built w2)
      | (Inl (CalledProcessError returncode), w2) \<Rightarrow>
          (Inr (if returncode \<noteq> 0 then returncode else 1),
           print (Error_build_failed returncode) w2)
      | (Inl FileNotFoundError, w2) \<Rightarrow> (Inr 4, print Error_gradle_missing w2)
      | (Inl exc, w2) \<Rightarrow> (Inl exc, w2))"
  using assms by (simp add: main_def)

text \<open>
  C4 (amended).  Let the wrapper be absent at the project root.  \<open>run_gradle_build\<close> then
  runs \<open>gradle wrapper\<close> in the root.  When that program cannot be started, the
  \<open>FileNotFoundError\<close> goes to the caller at once and \<open>main\<close> exits with code 4 after the
  message that gradle was not found.  When it runs and exits with a code that is not 0,
  the \<open>CalledProcessError\<close> goes to the caller at once and \<open>main\<close> exits with that code
  after the message that the build failed.  In both cases \<open>gradle wrapper\<close> is the only
  command that was run: the build itself is not attempted.
\<close>

theorem wrapper_bootstrap_failure:
  "(\<not> path_exists (files w)
        (slash project_root (if prefix ''win'' (platform E) then ''gradlew.bat'' else ''gradlew''))
     \<and> spawn E [''gradle'', ''wrapper''] project_root (files w) = NotFound \<longrightarrow>
      run_gradle_build E project_root offline w =
        (Inl FileNotFoundError,
         (print Info_bootstrap w)
           \<lparr>spawned := spawned w @ [([''gradle'', ''wrapper''], project_root)]\<rparr>))
   \<and> (\<not> path_exists (files w)
        (slash project_root (if prefix ''win'' (platform E) then ''gradlew.bat'' else ''gradlew''))
     \<and> spawn E [''gradle'', ''wrapper''] project_root (files w) = Exited returncode fs'
     \<and> returncode \<noteq> 0 \<longrightarrow>
      run_gradle_build E project_root offline w =
        (Inl (CalledProcessError returncode),
         (print Info_bootstrap w)
           \<lparr>spawned := spawned w @ [([''gradle'', ''wrapper''], project_root)],
            files := fs'\<rparr>))
   \<and> (arg_source a = None \<and> arg_build a
     \<and> create_project None (arg_out a) (safe_name (arg_project a) ''AiGeneratedAndroidApp'')
           (arg_app_name a) (arg_application_id a) (arg_compile_sdk a) (arg_min_sdk a)
           (arg_target_sdk a) (files v) = (Inr project_root, fs1)
     \<and> \<not> path_exists fs1
        (slash project_root (if prefix ''win'' (platform E) then ''gradlew.bat'' else ''gradlew''))
     \<and> spawn E [''gradle'', ''wrapper''] project_root fs1 = NotFound \<longrightarrow>
      fst (main E a v) = Inr 4
      \<and> spawned (snd (main E a v)) = spawned v @ [([''gradle'', ''wrapper''], project_root)]
      \<and> printed (snd (main E a v)) =
          printed v @ [Ok_project project_root, Ok_apk_hint, Info_bootstrap, Error_gradle_missing])
   \<and> (arg_source a = None \<and> arg_build a
     \<and> create_project None (arg_out a) (safe_name (arg_project a) ''AiGeneratedAndroidApp'')
           (arg_app_name a) (arg_application_id a) (arg_compile_sdk a) (arg_min_sdk a)
           (arg_target_sdk a) (files v) = (Inr project_root, fs1)
     \<and> \<not> path_exists fs1
        (slash project_root (if prefix ''win'' (platform E) then ''gradlew.bat'' else ''gradlew''))
     \<and> spawn E [''gradle'', ''wrapper''] project_root fs1 = Exited returncode fs'
     \<and> returncode \<noteq> 0 \<longrightarrow>
      fst (main E a v) = Inr returncode
      \<and> spawned (snd (main E a v)) = spawned v @ [([''gradle'', ''wrapper''], project_root)]
      \<and> printed (snd (main E a v)) =
          printed v @ [Ok_project project_root, Ok_apk_hint, Info_bootstrap,
                       Error_build_failed returncode])"
proof (intro conjI impI)
  assume "\<not> path_exists (files w)
        (slash project_root (if prefix ''win'' (platform E) then ''gradlew.bat'' else ''gradlew''))
     \<and> spawn E [''gradle'', ''wrapper''] project_root (files w) = NotFound"
  then show "run_gradle_build E project_root offline w =
        (Inl FileNotFoundError,
         (print Info_bootstrap w)
           \<lparr>spawned := spawned w @ [([''gradle'', ''wrapper''], project_root)]\<rparr>)"
    by (simp add: run_gradle_build_def subprocess_run_def print_def Let_def)
next
  assume "\<not> path_exists (files w)
        (slash project_root (if prefix ''win'' (platform E) then ''gradlew.bat'' else ''gradlew''))
     \<and> spawn E [''gradle'', ''wrapper''] project_root (files w) = Exited returncode fs'
     \<and> returncode \<noteq> 0"
  then show "run_gradle_build E project_root offline w =
        (Inl (CalledProcessError returncode),
         (print Info_bootstrap w)
           \<lparr>spawned := spawned w @ [([''gradle'', ''wrapper''], project_root)],
            files := fs'\<rparr>)"
    by (simp add: run_gradle_build_def subprocess_run_def print_def Let_def)
next
  assume h: "arg_source a = None \<and> arg_build a
     \<and> create_project None (arg_out a) (safe_name (arg_project a) ''AiGeneratedAndroidApp'')
           (arg_app_name a) (arg_application_id a) (arg_compile_sdk a) (arg_min_sdk a)
           (arg_target_sdk a) (files v) = (Inr project_root, fs1)
     \<and> \<not> path_exists fs1
        (slash project_root (if prefix ''win'' (platform E) then ''gradlew.bat'' else ''gradlew''))
     \<and> spawn E [''gradle'', ''wrapper''] project_root fs1 = NotFound"
  then have m: "main E a v =
        (Inr 4, print Error_gradle_missing
          ((print Info_bootstrap (print Ok_apk_hint (print (Ok_project project_root) (v\<lparr>files := fs1\<rparr>))))
           \<lparr>spawned := spawned v @ [([''gradle'', ''wrapper''], project_root)]\<rparr>))"
    by (simp add: main_build run_gradle_build_def subprocess_run_def print_def Let_def)
  from m show "fst (main E a v) = Inr 4" by simp
  from m show "spawned (snd (main E a v)) = spawned v @ [([''gradle'', ''wrapper''], project_root)]"
    by (simp add: print_def)
  from m show "printed (snd (main E a v)) =
          printed v @ [Ok_project project_root, Ok_apk_hint, Info_bootstrap, Error_gradle_missing]"
    by (simp add: print_def)
next
  assume h: "arg_source a = None \<and> arg_build a
     \<and> create_project None (arg_out a) (safe_name (arg_project a) ''AiGeneratedAndroidApp'')
           (arg_app_name a) (arg_application_id a) (arg_compile_sdk a) (arg_min_sdk a)
           (arg_target_sdk a) (files v) = (Inr project_root, fs1)
     \<and> \<not> path_exists fs1
        (slash project_root (if prefix ''win'' (platform E) then ''gradlew.bat'' else ''gradlew''))
     \<and> spawn E [''gradle'', ''wrapper''] project_root fs1 = Exited returncode fs'
     \<and> returncode \<noteq> 0"
  then have m: "main E a v =
        (Inr returncode, print (Error_build_failed returncode)
          ((print Info_bootstrap (print Ok_apk_hint (print (Ok_project project_root) (v\<lparr>files := fs1\<rparr>))))
           \<lparr>spawned := spawned v @ [([''gradle'', ''wrapper''], project_root)], files := fs'\<rparr>))"
    by (simp add: main_build run_gradle_build_def subprocess_run_def print_def Let_def)
  from m show "fst (main E a v) = Inr returncode" by simp
  from m show "spawned (snd (main E a v)) = spawned v @ [([''gradle'', ''wrapper''], project_root)]"
    by (simp add: print_def)
  from m show "printed (snd (main E a v)) =
          printed v @ [Ok_project project_root, Ok_apk_hint, Info_bootstrap,
                       Error_build_failed returncode]"
    by (simp add: print_def)
qed

lemma build_args_project:
  "create_project None (arg_out build_args)
     (safe_name (arg_project build_args) ''AiGeneratedAndroidApp'')
     (arg_app_name build_args) (arg_application_id build_args) (arg_compile_sdk build_args)
     (arg_min_sdk build_args) (arg_target_sdk build_args) (files fresh_world)
   = (Inr (Path False [''dist'', ''Foo'']), project_Foo)"
  using create_project_Foo by (simp add: build_args_def fresh_world_def safe_name_Foo)

lemma no_wrapper_in_Foo:
  "\<not> path_exists project_Foo (slash (Path False [''dist'', ''Foo'']) ''gradlew'')"
  by (simp add: path_exists_def project_Foo_def slash_def parse_path_def)

theorem wrapper_bootstrap_failure_witness:
  "fst (main host_without_gradle build_args fresh_world) = Inr 4
   \<and> spawned (snd (main host_without_gradle build_args fresh_world)) =
       [([''gradle'', ''wrapper''], Path False [''dist'', ''Foo''])]
   \<and> printed (snd (main host_without_gradle build_args fresh_world)) =
       [Ok_project (Path False [''dist'', ''Foo'']), Ok_apk_hint, Info_bootstrap,
        Error_gradle_missing]
   \<and> fst (main host_gradle_fails build_args fresh_world) = Inr 1"
proof -
  note t = wrapper_bootstrap_failure [where a = build_args and v = fresh_world
      and E = host_without_gradle and project_root = "Path False [''dist'', ''Foo'']"
      and ?fs1.0 = project_Foo]
  note u = wrapper_bootstrap_failure [where a = build_args and v = fresh_world
      and E = host_gradle_fails and project_root = "Path False [''dist'', ''Foo'']"
      and ?fs1.0 = project_Foo and returncode = 1 and fs' = project_Foo]
  have a: "arg_source build_args = None" "arg_build build_args"
    by (simp_all add: build_args_def)
  have w1: "\<not> path_exists project_Foo
      (slash (Path False [''dist'', ''Foo''])
         (if prefix ''win'' (platform host_without_gradle) then ''gradlew.bat'' else ''gradlew''))"
    using no_wrapper_in_Foo by (simp add: host_without_gradle_def)
  have w2: "\<not> path_exists project_Foo
      (slash (Path False [''dist'', ''Foo''])
         (if prefix ''win'' (platform host_gradle_fails) then ''gradlew.bat'' else ''gradlew''))"
    using no_wrapper_in_Foo by (simp add: host_gradle_fails_def)
  have s1: "spawn host_without_gradle [''gradle'', ''wrapper''] (Path False [''dist'', ''Foo''])
      project_Foo = NotFound"
    by (simp add: host_without_gradle_def)
  have s2: "spawn host_gradle_fails [''gradle'', ''wrapper''] (Path False [''dist'', ''Foo''])
      project_Foo = Exited 1 project_Foo"
    by (simp add: host_gradle_fails_def)
  from t [THEN conjunct2, THEN conjunct2, THEN conjunct1] a build_args_project w1 s1
  have 1: "fst (main host_without_gradle build_args fresh_world) = Inr 4
   \<and> spawned (snd (main host_without_gradle build_args fresh_world)) =
       spawned fresh_world @ [([''gradle'', ''wrapper''], Path False [''dist'', ''Foo''])]
   \<and> printed (snd (main host_without_gradle build_args fresh_world)) =
       printed fresh_world @ [Ok_project (Path False [''dist'', ''Foo'']), Ok_apk_hint, Info_bootstrap,
        Error_gradle_missing]"
    by blast
  from u [THEN conjunct2, THEN conjunct2, THEN conjunct2] a build_args_project w2 s2
  have 2: "fst (main host_gradle_fails build_args fresh_world) = Inr 1"
    by simp
  from 1 2 show ?thesis by (simp add: fresh_world_def)
qed

text \<open>
  C4 as stated fails where \<open>gradle\<close> is installed and \<open>gradle wrapper\<close> exits with a code
  that is not 0: \<open>main\<close> then reports a failed build and exits with that code, here 1,
  not with 4.
\<close>

theorem wrapper_bootstrap_exit_counterexample:
  "fst (main host_gradle_fails build_args fresh_world) = Inr 1
   \<and> printed (snd (main host_gradle_fails build_args fresh_world)) =
       [Ok_project (Path False [''dist'', ''Foo'']), Ok_apk_hint, Info_bootstrap,
        Error_build_failed 1]
   \<and> spawned (snd (main host_gradle_fails build_args fresh_world)) =
       [([''gradle'', ''wrapper''], Path False [''dist'', ''Foo''])]"
proof -
  have a: "arg_source build_args = None" "arg_build build_args"
    by (simp_all add: build_args_def)
  note m = main_build [OF a build_args_project, of host_gradle_fails]
  have r: "run_gradle_build host_gradle_fails (Path False [''dist'', ''Foo''])
        (arg_offline build_args)
        (print Ok_apk_hint (print (Ok_project (Path False [''dist'', ''Foo'']))
           (fresh_world\<lparr>files := project_Foo\<rparr>))) =
      (Inl (CalledProcessError 1),
       \<lparr>files = project_Foo,
        spawned = [([''gradle'', ''wrapper''], Path False [''dist'', ''Foo''])],
        printed = [Ok_project (Path False [''dist'', ''Foo'']), Ok_apk_hint, Info_bootstrap]\<rparr>)"
    using no_wrapper_in_Foo
    by (simp add: run_gradle_build_def subprocess_run_def
        print_def Let_def host_gradle_fails_def fresh_world_def)
  have "main host_gradle_fails build_args fresh_world =
      (Inr 1,
       \<lparr>files = project_Foo,
        spawned = [([''gradle'', ''wrapper''], Path False [''dist'', ''Foo''])],
        printed = [Ok_project (Path False [''dist'', ''Foo'']), Ok_apk_hint, Info_bootstrap,
          Error_build_failed 1]\<rparr>)"
    unfolding m r by (simp add: print_def)
  then show ?thesis by simp
qed

end
